theory Spec2Isabelle
  imports Complex_Main
begin

section \<open>Strings and the JavaScript runtime\<close>

text \<open>
  Strings are lists of 8-bit characters, read as the code units U+0000 .. U+00FF of a
  JavaScript string. \<open>String.prototype.toLowerCase\<close> on that range maps A-Z and the
  Latin-1 capitals (U+00C0 .. U+00DE without the multiplication sign U+00D7) 32 places up.
\<close>

definition lower_char :: "char \<Rightarrow> char" where
  "lower_char c =
     (let n = (of_char c :: nat)
      in if (65 \<le> n \<and> n \<le> 90) \<or> (192 \<le> n \<and> n \<le> 222 \<and> n \<noteq> 215)
         then char_of (n + 32) else c)"

definition toLowerCase :: "string \<Rightarrow> string" where
  "toLowerCase s = map lower_char s"

text \<open>
  \<open>s.split(sep)\<close> for a one-character separator: the pieces between the separators,
  always at least one piece.
\<close>

fun split_on :: "char \<Rightarrow> string \<Rightarrow> string list" where
  "split_on c [] = [[]]"
| "split_on c (x # xs) =
     (if x = c then [] # split_on c xs
      else (case split_on c xs of
              [] \<Rightarrow> [[x]]
            | y # ys \<Rightarrow> (x # y) # ys))"

text \<open>JavaScript truthiness of a value that is a string or undefined.\<close>

definition truthy :: "string option \<Rightarrow> bool" where
  "truthy v = (case v of None \<Rightarrow> False | Some s \<Rightarrow> s \<noteq> [])"

text \<open>
  The numbers the handlers compute with are integers, NaN or Infinity. Arithmetic on
  \<open>Num\<close> is exact here; a JavaScript double is exact on integers up to \<open>2^53 - 1\<close>
  (\<open>Number.MAX_SAFE_INTEGER\<close>), so the model is the program on that range.
\<close>

datatype jsnum = NaN | Infinity | Num int

definition in_safe_range :: "int \<Rightarrow> bool" where
  "in_safe_range n = (\<bar>n\<bar> \<le> 9007199254740991)"

definition is_js_space :: "char \<Rightarrow> bool" where
  "is_js_space c = ((of_char c :: nat) \<in> {9, 10, 11, 12, 13, 32, 160})"

definition digit_val :: "char \<Rightarrow> nat option" where
  "digit_val c =
     (let n = (of_char c :: nat)
      in if 48 \<le> n \<and> n \<le> 57 then Some (n - 48) else None)"

definition hex_val :: "char \<Rightarrow> nat option" where
  "hex_val c =
     (let n = (of_char c :: nat)
      in if 48 \<le> n \<and> n \<le> 57 then Some (n - 48)
         else if 97 \<le> n \<and> n \<le> 102 then Some (n - 87)
         else if 65 \<le> n \<and> n \<le> 70 then Some (n - 55)
         else None)"

fun digits_prefix :: "(char \<Rightarrow> nat option) \<Rightarrow> string \<Rightarrow> nat list" where
  "digits_prefix val [] = []"
| "digits_prefix val (c # cs) =
     (case val c of None \<Rightarrow> [] | Some d \<Rightarrow> d # digits_prefix val cs)"

definition radix_value :: "nat \<Rightarrow> nat list \<Rightarrow> nat" where
  "radix_value b ds = foldl (\<lambda>acc d. acc * b + d) 0 ds"

text \<open>
  \<open>parseInt(s, 10)\<close> is \<open>parseInt (Some 10) s\<close> and \<open>parseInt(s)\<close> is
  \<open>parseInt None s\<close>: leading white space is dropped, one sign is read, without a radix
  a prefix \<open>0x\<close> or \<open>0X\<close> selects base 16, and the longest run of digits is the value;
  no digit gives NaN.
\<close>

definition parseInt :: "nat option \<Rightarrow> string \<Rightarrow> jsnum" where
  "parseInt radix s =
     (let t = dropWhile is_js_space s;
          neg = (take 1 t = ''-'');
          t1 = (if take 1 t = ''-'' \<or> take 1 t = ''+'' then drop 1 t else t);
          hex = (radix = None \<and> (take 2 t1 = ''0x'' \<or> take 2 t1 = ''0X''));
          t2 = (if hex then drop 2 t1 else t1);
          ds = digits_prefix (if hex then hex_val else digit_val) t2;
          n = int (radix_value (if hex then 16 else 10) ds)
      in if ds = [] then NaN else Num (if neg then - n else n))"

text \<open>\<open>x || d\<close> on a number: NaN and zero are falsy.\<close>

definition or_default :: "jsnum \<Rightarrow> int \<Rightarrow> jsnum" where
  "or_default x d = (if x = NaN \<or> x = Num 0 then Num d else x)"

text \<open>\<open>(pageNum - 1) * limitNum\<close>, on the values \<open>parseInt\<close> returns.\<close>

definition skip_offset :: "jsnum \<Rightarrow> jsnum \<Rightarrow> jsnum" where
  "skip_offset p l =
     (case (p, l) of
        (Num a, Num b) \<Rightarrow> Num ((a - 1) * b)
      | _ \<Rightarrow> NaN)"

text \<open>\<open>Math.ceil(count / limitNum)\<close> for a count of documents: a division by zero is
  Infinity, or NaN when the count is zero too.\<close>

definition total_pages :: "nat \<Rightarrow> jsnum \<Rightarrow> jsnum" where
  "total_pages count l =
     (case l of
        Num b \<Rightarrow>
          if b = 0 then (if count = 0 then NaN else Infinity)
          else Num (- ((- int count) div b))
      | _ \<Rightarrow> NaN)"

section \<open>Requests, responses and the collaborators of the handlers\<close>

text \<open>The payload that \<open>jwt.sign\<close> is given at login and registration, and that
  \<open>jwt.verify\<close> decodes: \<open>{ userId, role }\<close>.\<close>

record token_payload =
  userId :: string
  role :: string

text \<open>The errors \<open>jwt.verify\<close> throws: an expired token, a token that is malformed or
  whose signature does not verify, a token that is not yet active.\<close>

datatype jwt_error = TokenExpiredError | JsonWebTokenError | NotBeforeError

text \<open>What a middleware does besides answering: console output and calls of the token
  verifier, in the order they happen.\<close>

datatype event =
    ConsoleLog string
  | ConsoleWarn string
  | JwtVerify string

text \<open>
  A document of the user collection (models/User.js). \<open>u_id\<close> is \<open>_id\<close>,
  \<open>password\<close> the stored hash, absent from a document it was not selected into or was
  deleted from; \<open>createdAt\<close> is the creation time in milliseconds. The demographic
  fields of the schema that no handler below reads are carried in \<open>details\<close>.
\<close>

record user =
  u_id :: string
  email :: string
  password :: "string option"
  mobileNumber :: string
  u_role :: string
  profilePicture :: string
  createdAt :: int
  details :: "(string \<times> string) list"

text \<open>The file part of a multipart request, and what multer's disk storage records in
  \<open>req.file\<close> once the file is written.\<close>

record file_part =
  fieldname :: string
  originalname :: string
  mimetype :: string
  byte_size :: nat

record stored_file =
  filename :: string
  path :: string

text \<open>
  A request as the handlers read it. \<open>headers\<close> is Node's header object, whose keys are
  lower-cased; \<open>query\<close> and \<open>body\<close> hold string fields; \<open>param_id\<close> is
  \<open>req.params.id\<close>; \<open>upload\<close> is the file part the request carries, if any;
  \<open>req_user\<close>, \<open>req_file\<close> and \<open>fileValidationError\<close> are \<open>req.user\<close>,
  \<open>req.file\<close> and \<open>req.fileValidationError\<close>, absent until a middleware sets them.
\<close>

record request =
  headers :: "string \<rightharpoonup> string"
  query :: "string \<rightharpoonup> string"
  body :: "string \<rightharpoonup> string"
  param_id :: string
  upload :: "file_part option"
  req_user :: "token_payload option"
  req_file :: "stored_file option"
  fileValidationError :: "string option"

text \<open>Express's \<open>req.header(name)\<close>: the header object read at the lower-cased name.\<close>

definition header :: "request \<Rightarrow> string \<Rightarrow> string option" where
  "header r name = headers r (toLowerCase name)"

text \<open>The errors a handler passes to \<open>next(err)\<close> or catches.\<close>

datatype js_error =
    TypeError
  | SyntaxError
  | CastError
  | ValidationError "(string \<times> string) list"
  | MongoServerError string

text \<open>The conditions the search handler adds to its filter besides the exclusion of the
  caller. A regular expression is kept as its source text (flag \<open>i\<close>), an age bound as
  the text \<open>Number\<close> is applied to.\<close>

datatype condition =
    GenderIs string
  | LocationRegex string
  | ReligionRegex string
  | AgeGte string
  | AgeLte string

text \<open>
  What the handlers call and this repository does not define:
  \<^item> \<open>jwt_verify\<close>, \<open>jwt_sign\<close>: \<open>jwt.verify\<close> and \<open>jwt.sign\<close> with the server's secret;
  \<^item> \<open>regexp_ok\<close>: whether \<open>new RegExp(text, "i")\<close> returns (it throws a SyntaxError
    otherwise);
  \<^item> \<open>cond_holds\<close>: whether the document store finds a document to satisfy a condition;
  \<^item> \<open>castObjectId\<close>: whether Mongoose casts a string to an ObjectId (a CastError
    otherwise);
  \<^item> \<open>irregular_cursor\<close>: what the store does with a skip or a limit that is NaN or
    negative: an error, or the skip and the limit it applies instead;
  \<^item> \<open>model_save\<close>: \<open>document.save()\<close> of a new user, which validates against the
    schema, hashes the password and inserts under the unique indexes;
  \<^item> \<open>extname\<close>: \<open>path.extname\<close>;
  \<^item> \<open>unique_suffix\<close>: the text of \<open>Date.now() + "-" + Math.round(Math.random() * 1e9)\<close>;
  \<^item> \<open>local_midnight\<close>, \<open>month_start\<close>: today's local midnight and the first day of
    the current month, in milliseconds.
\<close>

record env =
  jwt_verify :: "string \<Rightarrow> jwt_error + token_payload"
  jwt_sign :: "token_payload \<Rightarrow> string"
  regexp_ok :: "string \<Rightarrow> bool"
  cond_holds :: "condition \<Rightarrow> user \<Rightarrow> bool"
  castObjectId :: "string \<Rightarrow> bool"
  irregular_cursor :: "jsnum \<Rightarrow> jsnum \<Rightarrow> js_error + nat \<times> nat"
  model_save :: "user list \<Rightarrow> user \<Rightarrow> js_error + user"
  extname :: "string \<Rightarrow> string"
  unique_suffix :: string
  local_midnight :: int
  month_start :: int

text \<open>The JSON bodies of the responses, one constructor for each shape.\<close>

datatype response_body =
    Message string
  | Failure string
  | ErrorBody js_error
  | SearchResults "user list" nat jsnum jsnum jsnum
  | Profiles nat "user list"
  | ProfileBody user
  | UserBody user
  | AdminUsers "user list" nat jsnum jsnum jsnum string
  | Uploaded string string user
  | Registered string user
  | ValidationFailed string "(string \<times> string) list"
  | FileRejected string

text \<open>
  A middleware or handler hands the request on (\<open>next()\<close>), answers with a status and a
  body, or passes an error on (\<open>next(err)\<close>). The error handler of server.js answers an
  error with status 500 and its message.
\<close>

datatype outcome =
    Next request
  | Respond nat response_body
  | NextErr js_error

definition errorHandler :: "outcome \<Rightarrow> outcome" where
  "errorHandler out = (case out of NextErr err \<Rightarrow> Respond 500 (ErrorBody err) | _ \<Rightarrow> out)"

section \<open>The access gate (middleware/authMiddleware.js)\<close>

text \<open>\<open>req.header("Authorization")?.split(" ")[1]\<close>: undefined when the header is
  absent or has no second piece.\<close>

definition bearer_token :: "request \<Rightarrow> string option" where
  "bearer_token r =
     (case header r ''Authorization'' of
        None \<Rightarrow> None
      | Some h \<Rightarrow>
          (case split_on CHR '' '' h of
             _ # t # _ \<Rightarrow> Some t
           | _ \<Rightarrow> None))"

text \<open>
  \<open>authMiddleware\<close>. \<open>!token\<close> holds for an undefined token and for the empty string;
  the \<open>catch\<close> answers every error of \<open>jwt.verify\<close> alike.
\<close>

definition authMiddleware :: "env \<Rightarrow> request \<Rightarrow> outcome \<times> event list" where
  "authMiddleware e r =
     (if header r ''X-Admin-Request'' = Some ''true'' then
        (Next r, [ConsoleLog ''Auth Middleware: Admin request detected, bypassing token check.''])
      else
        (case bearer_token r of
           None \<Rightarrow> (Respond 401 (Message ''No token or admin header, authorization denied''), [])
         | Some t \<Rightarrow>
             if t = [] then
               (Respond 401 (Message ''No token or admin header, authorization denied''), [])
             else
               (case jwt_verify e t of
                  Inr decoded \<Rightarrow> (Next (r\<lparr>req_user := Some decoded\<rparr>), [JwtVerify t])
                | Inl err \<Rightarrow> (Respond 401 (Message ''Token is not valid''), [JwtVerify t]))))"

section \<open>The admin gate (middleware/staticAdminMiddleware.js)\<close>

definition staticAdminMiddleware :: "request \<Rightarrow> outcome \<times> event list" where
  "staticAdminMiddleware r =
     (if \<not> (headers r ''x-admin-request'' = Some ''true'') then
        (Respond 403 (Message ''Admin privileges required''),
         [ConsoleWarn ''StaticAdminMiddleware: Denying access. Missing or invalid X-Admin-Request header.''])
      else
        (Next r, [ConsoleLog ''StaticAdminMiddleware: Access granted via X-Admin-Request header.'']))"

text \<open>The token verifications a run performed.\<close>

definition verified_tokens :: "event list \<Rightarrow> string list" where
  "verified_tokens es = concat (map (\<lambda>ev. case ev of JwtVerify t \<Rightarrow> [t] | _ \<Rightarrow> []) es)"

section \<open>The document store\<close>

text \<open>
  The collection is the list of its documents. A query sorts the matching documents
  newest first, skips, then limits, in that order however the calls are chained; a limit
  of zero is no limit. Documents of equal creation time keep the order of the collection.
\<close>

definition newest_first :: "user list \<Rightarrow> user list" where
  "newest_first us = sort_key (\<lambda>u. - createdAt u) us"

definition window :: "nat \<Rightarrow> nat \<Rightarrow> user list \<Rightarrow> user list" where
  "window s l us = (if l = 0 then drop s us else take l (drop s us))"

definition run_cursor :: "env \<Rightarrow> jsnum \<Rightarrow> jsnum \<Rightarrow> user list \<Rightarrow> js_error + user list" where
  "run_cursor e sk lm us =
     (case (sk, lm) of
        (Num s, Num l) \<Rightarrow>
          if 0 \<le> s \<and> 0 \<le> l then Inr (window (nat s) (nat l) us)
          else (case irregular_cursor e sk lm of
                  Inl err \<Rightarrow> Inl err
                | Inr (s', l') \<Rightarrow> Inr (window s' l' us))
      | _ \<Rightarrow>
          (case irregular_cursor e sk lm of
             Inl err \<Rightarrow> Inl err
           | Inr (s', l') \<Rightarrow> Inr (window s' l' us)))"

text \<open>The three ways a handler keeps the hash out of a document: \<open>.select("-password")\<close>,
  the schema's \<open>select: false\<close> on a query without a selection, and \<open>delete\<close> on the
  plain object.\<close>

definition select_minus_password :: "user \<Rightarrow> user" where
  "select_minus_password u = u\<lparr>password := None\<rparr>"

definition schema_default_select :: "user \<Rightarrow> user" where
  "schema_default_select u = u\<lparr>password := None\<rparr>"

definition delete_password :: "user \<Rightarrow> user" where
  "delete_password u = u\<lparr>password := None\<rparr>"

text \<open>\<open>User.findById(id)\<close>: a CastError for an id that is no ObjectId, else the document
  of that id, if any.\<close>

definition findById :: "env \<Rightarrow> user list \<Rightarrow> string \<Rightarrow> js_error + user option" where
  "findById e db i =
     (if \<not> castObjectId e i then Inl CastError
      else Inr (find (\<lambda>u. u_id u = i) db))"

text \<open>\<open>User.findByIdAndUpdate(id, { profilePicture: p }, { new: true })\<close>: the
  document of that id is updated in the collection and returned as updated.\<close>

fun update_first :: "(user \<Rightarrow> bool) \<Rightarrow> (user \<Rightarrow> user) \<Rightarrow> user list \<Rightarrow> user list" where
  "update_first P f [] = []"
| "update_first P f (u # us) = (if P u then f u # us else u # update_first P f us)"

definition findByIdAndUpdate ::
  "env \<Rightarrow> user list \<Rightarrow> string \<Rightarrow> string \<Rightarrow> js_error + (user \<times> user list) option" where
  "findByIdAndUpdate e db i p =
     (if \<not> castObjectId e i then Inl CastError
      else (case find (\<lambda>u. u_id u = i) db of
              None \<Rightarrow> Inr None
            | Some u \<Rightarrow>
                Inr (Some (u\<lparr>profilePicture := p\<rparr>,
                           update_first (\<lambda>u. u_id u = i) (\<lambda>u. u\<lparr>profilePicture := p\<rparr>) db))))"

section \<open>Profile queries (routes/profileRoutes.js)\<close>

text \<open>\<open>const { page = 1, limit = 10 } = req.query\<close> followed by \<open>parseInt(page, 10)\<close>
  and \<open>parseInt(limit, 10)\<close>.\<close>

definition query_page :: "request \<Rightarrow> jsnum" where
  "query_page r = (case query r ''page'' of None \<Rightarrow> Num 1 | Some s \<Rightarrow> parseInt (Some 10) s)"

definition query_limit :: "request \<Rightarrow> jsnum" where
  "query_limit r = (case query r ''limit'' of None \<Rightarrow> Num 10 | Some s \<Rightarrow> parseInt (Some 10) s)"

text \<open>The filter of the search: \<open>{ _id: { $ne: req.user.userId } }\<close> and one condition
  for each query parameter that is truthy.\<close>

record search_filter =
  id_ne :: string
  conds :: "condition list"

definition search_conditions :: "request \<Rightarrow> condition list" where
  "search_conditions r =
     (case query r ''gender'' of Some g \<Rightarrow> if g \<noteq> [] then [GenderIs g] else [] | None \<Rightarrow> [])
     @ (case query r ''location'' of Some t \<Rightarrow> if t \<noteq> [] then [LocationRegex t] else [] | None \<Rightarrow> [])
     @ (case query r ''religion'' of Some t \<Rightarrow> if t \<noteq> [] then [ReligionRegex t] else [] | None \<Rightarrow> [])
     @ (if truthy (query r ''minAge'') \<or> truthy (query r ''maxAge'') then
          (case query r ''minAge'' of Some a \<Rightarrow> if a \<noteq> [] then [AgeGte a] else [] | None \<Rightarrow> [])
          @ (case query r ''maxAge'' of Some a \<Rightarrow> if a \<noteq> [] then [AgeLte a] else [] | None \<Rightarrow> [])
        else [])"

definition matches :: "env \<Rightarrow> search_filter \<Rightarrow> user \<Rightarrow> bool" where
  "matches e f u = (u_id u \<noteq> id_ne f \<and> list_all (\<lambda>c. cond_holds e c u) (conds f))"

text \<open>Whether \<open>new RegExp(v, "i")\<close> is reached for the parameter and throws.\<close>

definition regexp_throws :: "env \<Rightarrow> string option \<Rightarrow> bool" where
  "regexp_throws e v = (case v of None \<Rightarrow> False | Some t \<Rightarrow> t \<noteq> [] \<and> \<not> regexp_ok e t)"

text \<open>
  \<open>GET /search\<close>. Reading \<open>req.user.userId\<close> of an absent \<open>req.user\<close> throws a
  TypeError; every error inside the \<open>try\<close> goes to \<open>next(err)\<close>.
\<close>

definition search_handler :: "env \<Rightarrow> user list \<Rightarrow> request \<Rightarrow> outcome" where
  "search_handler e db r =
     (case req_user r of
        None \<Rightarrow> NextErr TypeError
      | Some caller \<Rightarrow>
          if regexp_throws e (query r ''location'') \<or> regexp_throws e (query r ''religion'') then
            NextErr SyntaxError
          else
            (let filter = \<lparr>id_ne = userId caller, conds = search_conditions r\<rparr>;
                 pageNum = query_page r;
                 limitNum = query_limit r;
                 skip = skip_offset pageNum limitNum
             in if \<not> castObjectId e (userId caller) then NextErr CastError
                else
                  (case run_cursor e skip limitNum (newest_first (List.filter (matches e filter) db)) of
                     Inl err \<Rightarrow> NextErr err
                   | Inr users \<Rightarrow>
                       (let count = length (List.filter (matches e filter) db)
                        in Respond 200
                             (SearchResults (map select_minus_password users) count pageNum limitNum
                                (total_pages count limitNum))))))"

text \<open>\<open>GET /\<close>: every profile, paginated.\<close>

definition list_handler :: "env \<Rightarrow> user list \<Rightarrow> request \<Rightarrow> outcome" where
  "list_handler e db r =
     (let pageNum = query_page r;
          limitNum = query_limit r;
          skip = skip_offset pageNum limitNum
      in (case run_cursor e skip limitNum (newest_first db) of
            Inl err \<Rightarrow> NextErr err
          | Inr profiles \<Rightarrow>
              Respond 200 (Profiles (length db) (map select_minus_password profiles))))"

text \<open>\<open>GET /:id\<close> and \<open>GET /me\<close>.\<close>

definition profile_handler :: "env \<Rightarrow> user list \<Rightarrow> request \<Rightarrow> outcome" where
  "profile_handler e db r =
     (case findById e db (param_id r) of
        Inl err \<Rightarrow>
          if err = CastError then Respond 400 (Failure ''Invalid profile ID format'')
          else NextErr err
      | Inr None \<Rightarrow> Respond 404 (Failure ''Profile not found'')
      | Inr (Some profile) \<Rightarrow> Respond 200 (ProfileBody (select_minus_password profile)))"

definition me_handler :: "env \<Rightarrow> user list \<Rightarrow> request \<Rightarrow> outcome" where
  "me_handler e db r =
     (case req_user r of
        None \<Rightarrow> NextErr TypeError
      | Some caller \<Rightarrow>
          (case findById e db (userId caller) of
             Inl err \<Rightarrow> NextErr err
           | Inr None \<Rightarrow> Respond 404 (Message ''User not found'')
           | Inr (Some u) \<Rightarrow> Respond 200 (UserBody (select_minus_password u))))"

text \<open>A route behind the access gate: the handler runs on the request the gate hands on,
  and the error handler of server.js answers what it passes to \<open>next(err)\<close>.\<close>

definition behind_auth :: "env \<Rightarrow> (request \<Rightarrow> outcome) \<Rightarrow> request \<Rightarrow> outcome" where
  "behind_auth e handler r =
     (case fst (authMiddleware e r) of
        Next r' \<Rightarrow> errorHandler (handler r')
      | out \<Rightarrow> out)"

definition get_search :: "env \<Rightarrow> user list \<Rightarrow> request \<Rightarrow> outcome" where
  "get_search e db r = behind_auth e (search_handler e db) r"

definition get_profiles :: "env \<Rightarrow> user list \<Rightarrow> request \<Rightarrow> outcome" where
  "get_profiles e db r = errorHandler (list_handler e db r)"

definition get_profile :: "env \<Rightarrow> user list \<Rightarrow> request \<Rightarrow> outcome" where
  "get_profile e db r = behind_auth e (profile_handler e db) r"

definition get_me :: "env \<Rightarrow> user list \<Rightarrow> request \<Rightarrow> outcome" where
  "get_me e db r = behind_auth e (me_handler e db) r"

section \<open>Admin queries (routes/adminRoutes.js)\<close>

text \<open>\<open>parseInt(req.query.page) || 1\<close> and \<open>parseInt(req.query.limit) || 9\<close>;
  \<open>parseInt(undefined)\<close> is NaN.\<close>

definition admin_page :: "request \<Rightarrow> jsnum" where
  "admin_page r =
     or_default (case query r ''page'' of None \<Rightarrow> NaN | Some s \<Rightarrow> parseInt None s) 1"

definition admin_limit :: "request \<Rightarrow> jsnum" where
  "admin_limit r =
     or_default (case query r ''limit'' of None \<Rightarrow> NaN | Some s \<Rightarrow> parseInt None s) 9"

definition admin_filter_type :: "request \<Rightarrow> string" where
  "admin_filter_type r =
     (case query r ''filter'' of None \<Rightarrow> ''recent'' | Some t \<Rightarrow> if t = [] then ''recent'' else t)"

text \<open>The query of the listing: \<open>{ createdAt: { $gte: d } }\<close> for the filters
  \<open>week\<close> and \<open>month\<close>, the empty query otherwise.\<close>

definition admin_since :: "env \<Rightarrow> string \<Rightarrow> int option" where
  "admin_since e filterType =
     (let today = local_midnight e;
          oneWeekAgo = today - 7 * 24 * 60 * 60 * 1000;
          firstDayOfMonth = month_start e
      in if filterType = ''week'' then Some oneWeekAgo
         else if filterType = ''month'' then Some firstDayOfMonth
         else None)"

definition admin_matches :: "int option \<Rightarrow> user \<Rightarrow> bool" where
  "admin_matches q u = (case q of None \<Rightarrow> True | Some d \<Rightarrow> d \<le> createdAt u)"

text \<open>\<open>GET /users\<close>.\<close>

definition admin_users_handler :: "env \<Rightarrow> user list \<Rightarrow> request \<Rightarrow> outcome" where
  "admin_users_handler e db r =
     (let page = admin_page r;
          limit = admin_limit r;
          filterType = admin_filter_type r;
          skip = skip_offset page limit;
          q = admin_since e filterType;
          totalUsers = length (List.filter (admin_matches q) db)
      in (case run_cursor e skip limit (newest_first (List.filter (admin_matches q) db)) of
            Inl err \<Rightarrow> NextErr err
          | Inr users \<Rightarrow>
              Respond 200
                (AdminUsers (map schema_default_select users) totalUsers
                   (total_pages totalUsers limit) page limit filterType)))"

text \<open>\<open>GET /users/:id\<close>.\<close>

definition admin_user_handler :: "env \<Rightarrow> user list \<Rightarrow> request \<Rightarrow> outcome" where
  "admin_user_handler e db r =
     (case findById e db (param_id r) of
        Inl err \<Rightarrow>
          if err = CastError then Respond 400 (Message ''Invalid user ID format'')
          else NextErr err
      | Inr None \<Rightarrow> Respond 404 (Message ''User not found'')
      | Inr (Some u) \<Rightarrow> Respond 200 (UserBody (delete_password (schema_default_select u))))"

text \<open>A route of the admin router: \<open>router.use(staticAdminMiddleware)\<close> runs before every
  handler.\<close>

definition behind_static_admin :: "(request \<Rightarrow> outcome) \<Rightarrow> request \<Rightarrow> outcome" where
  "behind_static_admin handler r =
     (case fst (staticAdminMiddleware r) of
        Next r' \<Rightarrow> errorHandler (handler r')
      | out \<Rightarrow> out)"

definition get_admin_users :: "env \<Rightarrow> user list \<Rightarrow> request \<Rightarrow> outcome" where
  "get_admin_users e db r = behind_static_admin (admin_users_handler e db) r"

definition get_admin_user :: "env \<Rightarrow> user list \<Rightarrow> request \<Rightarrow> outcome" where
  "get_admin_user e db r = behind_static_admin (admin_user_handler e db) r"

section \<open>The upload admission pipeline\<close>

text \<open>
  The test \<open>/\.(jpg|jpeg|png|gif)$/i\<close> of middleware/upload.js. Under the flag \<open>i\<close> two
  characters match when their canonical forms are equal; the canonical form of a-z is A-Z,
  and a character from U+0080 on never takes an ASCII canonical form, so against the ASCII
  letters of this pattern only the ASCII fold matters.
\<close>

definition canonical :: "char \<Rightarrow> char" where
  "canonical c =
     (let n = (of_char c :: nat)
      in if 97 \<le> n \<and> n \<le> 122 then char_of (n - 32) else c)"

definition matches_literal_to_end :: "string \<Rightarrow> string \<Rightarrow> bool" where
  "matches_literal_to_end lit s = (map canonical s = map canonical lit)"

text \<open>The pattern tried at the start of the text: a dot, one of the four alternatives,
  the end of the input.\<close>

definition pattern_matches_at :: "string \<Rightarrow> bool" where
  "pattern_matches_at s =
     (case s of
        [] \<Rightarrow> False
      | c # rest \<Rightarrow>
          c = CHR ''.'' \<and>
          (matches_literal_to_end ''jpg'' rest \<or> matches_literal_to_end ''jpeg'' rest \<or>
           matches_literal_to_end ''png'' rest \<or> matches_literal_to_end ''gif'' rest))"

text \<open>\<open>name.match(pattern)\<close> is not null: the pattern matches at some position.\<close>

fun image_name_match :: "string \<Rightarrow> bool" where
  "image_name_match [] = pattern_matches_at []"
| "image_name_match (c # cs) = (pattern_matches_at (c # cs) \<or> image_name_match cs)"

text \<open>What a file filter tells multer: accept the file, or fail with an error of the
  given message.\<close>

datatype filter_result = Accept | Reject string

text \<open>\<open>fileFilter\<close> of middleware/upload.js; the first component is the request with
  \<open>req.fileValidationError\<close> set on rejection.\<close>

definition fileFilter :: "request \<Rightarrow> file_part \<Rightarrow> request \<times> filter_result" where
  "fileFilter r f =
     (if \<not> image_name_match (originalname f) then
        (r\<lparr>fileValidationError := Some ''Only image files (jpg, jpeg, png, gif) are allowed!''\<rparr>,
         Reject ''Only image files are allowed!'')
      else (r, Accept))"

text \<open>\<open>fileFilter\<close> of routes/authRoutes.js, the registration pipeline.\<close>

definition register_fileFilter :: "request \<Rightarrow> file_part \<Rightarrow> request \<times> filter_result" where
  "register_fileFilter r f =
     (if take 6 (mimetype f) = ''image/'' then (r, Accept)
      else (r, Reject ''Not an image! Please upload only images.''))"

text \<open>The \<open>filename\<close> function of both disk storages.\<close>

definition generated_filename :: "env \<Rightarrow> file_part \<Rightarrow> string" where
  "generated_filename e f = fieldname f @ ''-'' @ unique_suffix e @ extname e (originalname f)"

text \<open>
  multer's \<open>single(field)\<close> with disk storage, as the library documents it: a request
  without a file part passes unchanged; a file under another field name is an
  unexpected-file error; the file filter runs before anything is written, and its error
  aborts the upload; a file larger than the limit is a size error and what was written of it
  is removed; otherwise the file is written under the destination and recorded in
  \<open>req.file\<close>. The storage is the set of the paths of the files it holds; a destination
  is written relative to the root of the application.
\<close>

datatype multer_code = LIMIT_FILE_SIZE | LIMIT_UNEXPECTED_FILE

datatype upload_error = MulterError multer_code | OtherError string

definition multer_message :: "multer_code \<Rightarrow> string" where
  "multer_message c = (case c of LIMIT_FILE_SIZE \<Rightarrow> ''File too large'' | LIMIT_UNEXPECTED_FILE \<Rightarrow> ''Unexpected field'')"

definition multer_single ::
  "string \<Rightarrow> nat \<Rightarrow> (request \<Rightarrow> file_part \<Rightarrow> request \<times> filter_result) \<Rightarrow> string \<Rightarrow>
   env \<Rightarrow> string set \<Rightarrow> request \<Rightarrow> upload_error option \<times> request \<times> string set" where
  "multer_single field fileSize filt destination e fs r =
     (case upload r of
        None \<Rightarrow> (None, r, fs)
      | Some f \<Rightarrow>
          if fieldname f \<noteq> field then (Some (MulterError LIMIT_UNEXPECTED_FILE), r, fs)
          else
            (case filt r f of
               (r', Reject msg) \<Rightarrow> (Some (OtherError msg), r', fs)
             | (r', Accept) \<Rightarrow>
                 if fileSize < byte_size f then (Some (MulterError LIMIT_FILE_SIZE), r', fs)
                 else
                   (let name = generated_filename e f;
                        stored = \<lparr>filename = name, path = destination @ ''/'' @ name\<rparr>
                    in (None, r'\<lparr>req_file := Some stored\<rparr>, insert (path stored) fs))))"

text \<open>\<open>uploadMiddleware\<close> of middleware/upload.js.\<close>

definition uploadMiddleware :: "env \<Rightarrow> string set \<Rightarrow> request \<Rightarrow> outcome \<times> string set" where
  "uploadMiddleware e fs r =
     (case multer_single ''profileImage'' (1024 * 1024 * 5) fileFilter ''uploads/profile-pics'' e fs r of
        (err, r', fs') \<Rightarrow>
          if truthy (fileValidationError r') then
            (Respond 400 (Message (case fileValidationError r' of Some msg \<Rightarrow> msg | None \<Rightarrow> [])), fs')
          else
            (case err of
               Some (MulterError code) \<Rightarrow>
                 if code = LIMIT_FILE_SIZE then
                   (Respond 400 (Message ''File size cannot be larger than 5MB!''), fs')
                 else (Respond 400 (Message (multer_message code)), fs')
             | Some (OtherError msg) \<Rightarrow> (Respond 500 (Message ''Error uploading file.''), fs')
             | None \<Rightarrow> (Next r', fs')))"

text \<open>
  \<open>POST /me/upload-picture\<close>, behind the access gate and \<open>uploadMiddleware\<close>. The
  handler returns the collection as it leaves it; it never touches the storage.
\<close>

definition upload_picture_handler :: "env \<Rightarrow> user list \<Rightarrow> request \<Rightarrow> outcome \<times> user list" where
  "upload_picture_handler e db r =
     (case req_file r of
        None \<Rightarrow> (Respond 400 (Message ''No file uploaded or middleware error occurred.''), db)
      | Some f \<Rightarrow>
          (let isAdminRequest = (header r ''X-Admin-Request'' = Some ''true'')
           in if isAdminRequest \<and> \<not> truthy (body r ''userId'') then
                (Respond 400 (Message ''Admin upload request requires userId in body''), db)
              else if \<not> isAdminRequest \<and> \<not> truthy (map_option userId (req_user r)) then
                (Respond 401 (Message ''User ID not found in token for standard upload''), db)
              else
                (let targetUserId =
                       (if isAdminRequest then (case body r ''userId'' of Some i \<Rightarrow> i | None \<Rightarrow> [])
                        else (case req_user r of Some c \<Rightarrow> userId c | None \<Rightarrow> []));
                     filePath = ''/uploads/profile-pics/'' @ filename f
                 in (case findByIdAndUpdate e db targetUserId filePath of
                       Inl err \<Rightarrow>
                         if err = CastError then
                           (Respond 400 (Message ''Invalid user ID format provided''), db)
                         else (NextErr err, db)
                     | Inr None \<Rightarrow> (Respond 404 (Message ''User not found for picture update''), db)
                     | Inr (Some (u, db')) \<Rightarrow>
                         (Respond 200
                            (Uploaded ''Profile picture uploaded successfully'' filePath
                               (select_minus_password u)), db')))))"

definition post_upload_picture ::
  "env \<Rightarrow> user list \<Rightarrow> string set \<Rightarrow> request \<Rightarrow> outcome \<times> user list \<times> string set" where
  "post_upload_picture e db fs r =
     (case fst (authMiddleware e r) of
        Next r1 \<Rightarrow>
          (case uploadMiddleware e fs r1 of
             (Next r2, fs') \<Rightarrow>
               (case upload_picture_handler e db r2 of
                  (out, db') \<Rightarrow> (errorHandler out, db', fs'))
           | (out, fs') \<Rightarrow> (out, db, fs'))
      | out \<Rightarrow> (out, db, fs))"

section \<open>Registration (routes/authRoutes.js)\<close>

text \<open>\<open>handleValidationError\<close> of middleware/handleValidationError.js.\<close>

definition handleValidationError :: "js_error \<Rightarrow> outcome" where
  "handleValidationError err =
     (case err of
        ValidationError errors \<Rightarrow>
          Respond 400 (ValidationFailed ''Validation failed. Please check your input.'' errors)
      | _ \<Rightarrow> Respond 400 (ValidationFailed ''An unexpected validation error occurred.'' []))"

text \<open>\<open>fs.unlink(path, callback)\<close>: the file of that path leaves the storage.\<close>

definition unlink :: "string \<Rightarrow> string set \<Rightarrow> string set" where
  "unlink p fs = fs - {p}"

text \<open>The fields the handler reads from the body besides \<open>email\<close>, \<open>password\<close> and
  \<open>mobileNumber\<close>, and the document it builds: the store assigns \<open>_id\<close> and
  \<open>createdAt\<close> and hashes the password on save.\<close>

definition profile_fields :: "string list" where
  "profile_fields =
     [''name'', ''gender'', ''dateOfBirth'', ''heightCm'', ''weightKg'', ''maritalStatus'',
      ''motherTongue'', ''physicalStatus'', ''bodyType'', ''complexion'', ''profileCreatedBy'',
      ''city'', ''state'', ''country'', ''religion'', ''caste'', ''subCaste'', ''gothra'',
      ''manglik'', ''educationLevel'', ''educationField'', ''occupation'', ''annualIncome'',
      ''fatherStatus'', ''motherStatus'', ''numberOfSiblings'', ''siblingsMarried'',
      ''familyType'', ''familyValues'', ''diet'', ''smokingHabits'', ''drinkingHabits'', ''bio'']"

definition essential_fields :: "string list" where
  "essential_fields =
     [''email'', ''password'', ''mobileNumber'', ''name'', ''gender'', ''dateOfBirth'',
      ''city'', ''state'', ''country'']"

definition field_or_empty :: "request \<Rightarrow> string \<Rightarrow> string" where
  "field_or_empty r k = (case body r k of Some v \<Rightarrow> v | None \<Rightarrow> [])"

definition new_user :: "request \<Rightarrow> user" where
  "new_user r =
     \<lparr>u_id = [],
      email = toLowerCase (field_or_empty r ''email''),
      password = Some (field_or_empty r ''password''),
      mobileNumber = field_or_empty r ''mobileNumber'',
      u_role = ''user'',
      profilePicture =
        (case req_file r of
           Some f \<Rightarrow> ''/uploads/profile-pictures/'' @ filename f
         | None \<Rightarrow> []),
      createdAt = 0,
      details = concat (map (\<lambda>k. case body r k of Some v \<Rightarrow> [(k, v)] | None \<Rightarrow> []) profile_fields)\<rparr>"

text \<open>The second handler of \<open>POST /register\<close>: it returns the collection and the storage
  as it leaves them.\<close>

definition register_handler ::
  "env \<Rightarrow> user list \<Rightarrow> string set \<Rightarrow> request \<Rightarrow> outcome \<times> user list \<times> string set" where
  "register_handler e db fs r =
     (if \<not> list_all (\<lambda>k. truthy (body r k)) essential_fields then
        (Respond 400 (Failure ''Missing essential registration fields.''), db, fs)
      else
        (let em = toLowerCase (field_or_empty r ''email'');
             mobile = field_or_empty r ''mobileNumber''
         in (case find (\<lambda>u. email u = em \<or> mobileNumber u = mobile) db of
               Some existingUser \<Rightarrow>
                 (let message =
                        (if email existingUser = em then
                           ''An account with this email already exists.''
                         else if mobileNumber existingUser = mobile then
                           ''An account with this mobile number already exists.''
                         else ''User already exists.'');
                      fs' = (case req_file r of Some f \<Rightarrow> unlink (path f) fs | None \<Rightarrow> fs)
                  in (Respond 400 (Failure message), db, fs'))
             | None \<Rightarrow>
                 (case model_save e db (new_user r) of
                    Inr savedUser \<Rightarrow>
                      (let userForResponse = delete_password savedUser;
                           token = jwt_sign e \<lparr>userId = u_id savedUser, role = u_role savedUser\<rparr>
                       in (Respond 201 (Registered token userForResponse), db @ [savedUser], fs))
                  | Inl err \<Rightarrow>
                      (let fs' =
                             (case (req_file r, err) of
                                (Some f, ValidationError _) \<Rightarrow> unlink (path f) fs
                              | _ \<Rightarrow> fs)
                       in (case err of
                             ValidationError _ \<Rightarrow> (handleValidationError err, db, fs')
                           | _ \<Rightarrow>
                               (Respond 500 (Failure ''Server error during registration.''), db, fs')))))))"

text \<open>\<open>POST /register\<close>: the multer stage, then the handler.\<close>

definition post_register ::
  "env \<Rightarrow> user list \<Rightarrow> string set \<Rightarrow> request \<Rightarrow> outcome \<times> user list \<times> string set" where
  "post_register e db fs r =
     (case multer_single ''profileImage'' (5 * 1024 * 1024) register_fileFilter
             ''uploads/profile-pictures'' e fs r of
        (Some (MulterError code), r', fs') \<Rightarrow>
          (let message = (if code = LIMIT_FILE_SIZE then ''Image size cannot exceed 5MB.''
                          else ''File upload error.'')
           in (Respond 400 (FileRejected message), db, fs'))
      | (Some (OtherError msg), r', fs') \<Rightarrow>
          (Respond 400 (FileRejected (if msg = [] then ''Invalid file type.'' else msg)), db, fs')
      | (None, r', fs') \<Rightarrow> register_handler e db fs' r')"

section \<open>Notions the properties are stated with\<close>

text \<open>The documents a search of caller \<open>c\<close> matches, and those the admin listing
  matches: the filter of the handler, without pagination.\<close>

definition search_matching :: "env \<Rightarrow> token_payload \<Rightarrow> request \<Rightarrow> user list \<Rightarrow> user list" where
  "search_matching e c r db =
     List.filter (matches e \<lparr>id_ne = userId c, conds = search_conditions r\<rparr>) db"

definition admin_matching :: "env \<Rightarrow> request \<Rightarrow> user list \<Rightarrow> user list" where
  "admin_matching e r db =
     List.filter (admin_matches (admin_since e (admin_filter_type r))) db"

text \<open>The user documents a response carries.\<close>

definition payload_users :: "response_body \<Rightarrow> user list" where
  "payload_users b =
     (case b of
        SearchResults us _ _ _ _ \<Rightarrow> us
      | Profiles _ us \<Rightarrow> us
      | ProfileBody u \<Rightarrow> [u]
      | UserBody u \<Rightarrow> [u]
      | AdminUsers us _ _ _ _ _ \<Rightarrow> us
      | Uploaded _ _ u \<Rightarrow> [u]
      | Registered _ u \<Rightarrow> [u]
      | _ \<Rightarrow> [])"

definition response_users :: "outcome \<Rightarrow> user list" where
  "response_users out = (case out of Respond _ b \<Rightarrow> payload_users b | _ \<Rightarrow> [])"

text \<open>
  The extension of a file name, in the words of the specification: the text after the last
  dot, if the name has a dot. It is on the allow-list when it equals one of the four image
  extensions up to the case of its letters.
\<close>

definition extension_of :: "string \<Rightarrow> string option" where
  "extension_of name =
     (if CHR ''.'' \<in> set name then Some (rev (takeWhile (\<lambda>c. c \<noteq> CHR ''.'') (rev name)))
      else None)"

definition image_extensions :: "string list" where
  "image_extensions = [''jpg'', ''jpeg'', ''png'', ''gif'']"

definition same_ignoring_case :: "string \<Rightarrow> string \<Rightarrow> bool" where
  "same_ignoring_case a b = (map canonical a = map canonical b)"

definition has_image_extension :: "string \<Rightarrow> bool" where
  "has_image_extension name =
     (case extension_of name of
        None \<Rightarrow> False
      | Some x \<Rightarrow> list_ex (same_ignoring_case x) image_extensions)"

section \<open>An environment, a collection and requests for the examples\<close>

definition sample_env :: env where
  "sample_env =
     \<lparr>jwt_verify =
        (\<lambda>t. if t = ''valid-u1'' then Inr \<lparr>userId = ''u1'', role = ''user''\<rparr>
             else if t = ''expired-u1'' then Inl TokenExpiredError
             else Inl JsonWebTokenError),
      jwt_sign = (\<lambda>p. ''signed-'' @ userId p),
      regexp_ok = (\<lambda>t. True),
      cond_holds = (\<lambda>c u. case c of GenderIs g \<Rightarrow> (''gender'', g) \<in> set (details u) | _ \<Rightarrow> True),
      castObjectId = (\<lambda>i. i \<noteq> []),
      irregular_cursor = (\<lambda>sk lm. Inl (MongoServerError ''invalid cursor option'')),
      model_save = (\<lambda>db u. Inr (u\<lparr>u_id := ''u9'', password := Some ''hash9'', createdAt := 900\<rparr>)),
      extname =
        (\<lambda>n. if CHR ''.'' \<in> set n then CHR ''.'' # rev (takeWhile (\<lambda>c. c \<noteq> CHR ''.'') (rev n))
             else []),
      unique_suffix = ''1700000000000-123456789'',
      local_midnight = 1699920000000,
      month_start = 1698796800000\<rparr>"

definition sample_user :: "string \<Rightarrow> string \<Rightarrow> int \<Rightarrow> user" where
  "sample_user i g t =
     \<lparr>u_id = i, email = i @ ''@example.com'', password = Some (''hash-of-'' @ i),
      mobileNumber = ''98765'' @ i, u_role = ''user'', profilePicture = [], createdAt = t,
      details = [(''gender'', g)]\<rparr>"

definition sample_db :: "user list" where
  "sample_db =
     [sample_user ''u1'' ''Female'' 100, sample_user ''u2'' ''Male'' 300,
      sample_user ''u3'' ''Female'' 200]"

definition sample_request :: request where
  "sample_request =
     \<lparr>headers = Map.empty, query = Map.empty, body = Map.empty, param_id = [],
      upload = None, req_user = None, req_file = None, fileValidationError = None\<rparr>"

definition with_headers :: "(string \<times> string) list \<Rightarrow> request" where
  "with_headers hs = sample_request\<lparr>headers := map_of hs\<rparr>"

definition text_file_declared_image :: file_part where
  "text_file_declared_image =
     \<lparr>fieldname = ''profileImage'', originalname = ''notes.txt'', mimetype = ''image/png'',
      byte_size = 2048\<rparr>"

definition photo :: file_part where
  "photo =
     \<lparr>fieldname = ''profileImage'', originalname = ''me.PNG'', mimetype = ''image/png'',
      byte_size = 2048\<rparr>"

definition photo_declared_text :: file_part where
  "photo_declared_text =
     \<lparr>fieldname = ''profileImage'', originalname = ''me.PNG'', mimetype = ''text/plain'',
      byte_size = 2048\<rparr>"

definition paged_request :: request where
  "paged_request =
     sample_request
       \<lparr>query := [''page'' \<mapsto> ''2'', ''limit'' \<mapsto> ''1''],
        req_user := Some \<lparr>userId = ''u1'', role = ''user''\<rparr>\<rparr>"

definition female_search :: request where
  "female_search =
     (with_headers [(''authorization'', ''Bearer valid-u1'')])\<lparr>query := [''gender'' \<mapsto> ''Female'']\<rparr>"

definition member_request :: request where
  "member_request =
     (with_headers [(''authorization'', ''Bearer valid-u1'')])
       \<lparr>query := [''gender'' \<mapsto> ''Female''], param_id := ''u2''\<rparr>"

definition admin_request :: request where
  "admin_request = (with_headers [(''x-admin-request'', ''true'')])\<lparr>param_id := ''u2''\<rparr>"

definition incomplete_registration :: request where
  "incomplete_registration =
     sample_request
       \<lparr>body := [''email'' \<mapsto> ''new@example.com'', ''password'' \<mapsto> ''secret1''],
        upload := Some photo\<rparr>"

definition complete_registration :: request where
  "complete_registration =
     sample_request
       \<lparr>body :=
          [''email'' \<mapsto> ''new@example.com'', ''password'' \<mapsto> ''secret1'',
           ''mobileNumber'' \<mapsto> ''9000000001'', ''name'' \<mapsto> ''Asha'', ''gender'' \<mapsto> ''Female'',
           ''dateOfBirth'' \<mapsto> ''1995-04-01'', ''city'' \<mapsto> ''Pune'', ''state'' \<mapsto> ''MH'',
           ''country'' \<mapsto> ''India''],
        upload := Some photo\<rparr>"

definition picture_for_absent_user :: request where
  "picture_for_absent_user =
     (with_headers [(''authorization'', ''Bearer valid-u1'')])\<lparr>upload := Some photo\<rparr>"

definition failing_store :: env where
  "failing_store =
     sample_env\<lparr>model_save := (\<lambda>db u. Inl (MongoServerError ''E11000 duplicate key error''))\<rparr>"

section \<open>Properties of the two gates\<close>

lemma toLowerCase_admin_header: "toLowerCase ''X-Admin-Request'' = ''x-admin-request''"
  by code_simp

lemma toLowerCase_authorization: "toLowerCase ''Authorization'' = ''authorization''"
  by code_simp

lemma header_admin: "header r ''X-Admin-Request'' = headers r ''x-admin-request''"
  by (simp add: header_def toLowerCase_admin_header)

lemma header_authorization: "header r ''Authorization'' = headers r ''authorization''"
  by (simp add: header_def toLowerCase_authorization)

lemma authMiddleware_admin:
  "headers r ''x-admin-request'' = Some ''true'' \<Longrightarrow>
   authMiddleware e r =
     (Next r, [ConsoleLog ''Auth Middleware: Admin request detected, bypassing token check.''])"
  by (simp add: authMiddleware_def header_admin)

lemma authMiddleware_Next:
  assumes "fst (authMiddleware e r) = Next r'"
  shows "(headers r ''x-admin-request'' = Some ''true'' \<and> r' = r) \<or>
         (headers r ''x-admin-request'' \<noteq> Some ''true'' \<and>
          (\<exists>t c. bearer_token r = Some t \<and> t \<noteq> [] \<and> jwt_verify e t = Inr c \<and>
                 r' = r\<lparr>req_user := Some c\<rparr>))"
  using assms
  by (auto simp: authMiddleware_def header_admin split: if_splits option.splits sum.splits)

lemma authMiddleware_Respond:
  assumes "fst (authMiddleware e r) = Respond st b"
  shows "st = 401 \<and> (b = Message ''No token or admin header, authorization denied'' \<or>
                       b = Message ''Token is not valid'')"
  using assms
  by (auto simp: authMiddleware_def split: if_splits option.splits sum.splits)

lemma authMiddleware_not_NextErr: "fst (authMiddleware e r) \<noteq> NextErr err"
  by (auto simp: authMiddleware_def split: if_splits option.splits sum.splits)

lemma bearer_token_forged:
  "bearer_token (with_headers [(''authorization'', ''Bearer forged'')]) = Some ''forged''"
  by (simp add: bearer_token_def header_authorization with_headers_def sample_request_def)

lemma bearer_token_expired:
  "bearer_token (with_headers [(''authorization'', ''Bearer expired-u1'')]) = Some ''expired-u1''"
  by (simp add: bearer_token_def header_authorization with_headers_def sample_request_def)

lemma bearer_token_valid:
  "bearer_token (with_headers [(''authorization'', ''Bearer valid-u1'')]) = Some ''valid-u1''"
  by (simp add: bearer_token_def header_authorization with_headers_def sample_request_def)

text \<open>
  C3. A request whose header \<open>X-Admin-Request\<close> is exactly \<open>true\<close> passes the access
  gate at once: the request is handed on unchanged, no token is verified, and this is so
  whatever the \<open>Authorization\<close> header holds (nothing, a valid token, an invalid one) and
  whatever the verifier would answer.
\<close>

theorem admin_header_bypasses_token_check:
  assumes "headers r ''x-admin-request'' = Some ''true''"
  shows "fst (authMiddleware e r) = Next r \<and>
         verified_tokens (snd (authMiddleware e r)) = [] \<and>
         (\<forall>e' a. fst (authMiddleware e' (r\<lparr>headers := (headers r)(''authorization'' := a)\<rparr>)) =
                   Next (r\<lparr>headers := (headers r)(''authorization'' := a)\<rparr>))"
  using assms by (simp add: authMiddleware_admin verified_tokens_def)

theorem admin_header_bypasses_token_check_witness:
  "headers (with_headers [(''x-admin-request'', ''true''), (''authorization'', ''Bearer forged'')])
     ''x-admin-request'' = Some ''true'' \<and>
   jwt_verify sample_env ''forged'' = Inl JsonWebTokenError \<and>
   fst (authMiddleware sample_env
          (with_headers [(''x-admin-request'', ''true''), (''authorization'', ''Bearer forged'')])) =
     Next (with_headers [(''x-admin-request'', ''true''), (''authorization'', ''Bearer forged'')]) \<and>
   verified_tokens (snd (authMiddleware sample_env
          (with_headers [(''x-admin-request'', ''true''), (''authorization'', ''Bearer forged'')]))) = []"
  using admin_header_bypasses_token_check
    [of "with_headers [(''x-admin-request'', ''true''), (''authorization'', ''Bearer forged'')]" sample_env]
  by (simp add: with_headers_def sample_request_def sample_env_def)

text \<open>
  C4. The gate of the admin routes decides on the header \<open>X-Admin-Request\<close> alone: it
  hands the request on when the value is exactly \<open>true\<close> and answers 403 otherwise, it
  never verifies a token, and a request without the header is refused on every admin route
  even when it carries a bearer token that the access gate would accept.
\<close>

theorem admin_gate_decides_on_header_only:
  "fst (staticAdminMiddleware r) =
     (if headers r ''x-admin-request'' = Some ''true'' then Next r
      else Respond 403 (Message ''Admin privileges required'')) \<and>
   verified_tokens (snd (staticAdminMiddleware r)) = [] \<and>
   (headers r ''x-admin-request'' \<noteq> Some ''true'' \<longrightarrow>
      (\<forall>handler. behind_static_admin handler r = Respond 403 (Message ''Admin privileges required'')) \<and>
      (\<forall>e t d. bearer_token r = Some t \<and> t \<noteq> [] \<and> jwt_verify e t = Inr d \<longrightarrow>
         fst (authMiddleware e r) = Next (r\<lparr>req_user := Some d\<rparr>)))"
  by (auto simp: staticAdminMiddleware_def verified_tokens_def behind_static_admin_def
      authMiddleware_def header_admin)

theorem admin_gate_decides_on_header_only_witness:
  "headers (with_headers [(''authorization'', ''Bearer valid-u1'')]) ''x-admin-request'' \<noteq> Some ''true'' \<and>
   bearer_token (with_headers [(''authorization'', ''Bearer valid-u1'')]) = Some ''valid-u1'' \<and>
   jwt_verify sample_env ''valid-u1'' = Inr \<lparr>userId = ''u1'', role = ''user''\<rparr> \<and>
   fst (staticAdminMiddleware (with_headers [(''authorization'', ''Bearer valid-u1'')])) =
     Respond 403 (Message ''Admin privileges required'') \<and>
   get_admin_users sample_env sample_db (with_headers [(''authorization'', ''Bearer valid-u1'')]) =
     Respond 403 (Message ''Admin privileges required'') \<and>
   fst (authMiddleware sample_env (with_headers [(''authorization'', ''Bearer valid-u1'')])) =
     Next ((with_headers [(''authorization'', ''Bearer valid-u1'')])
             \<lparr>req_user := Some \<lparr>userId = ''u1'', role = ''user''\<rparr>\<rparr>)"
proof -
  have a: "headers (with_headers [(''authorization'', ''Bearer valid-u1'')]) ''x-admin-request'' \<noteq> Some ''true''"
    by (simp add: with_headers_def sample_request_def)
  have c: "jwt_verify sample_env ''valid-u1'' = Inr \<lparr>userId = ''u1'', role = ''user''\<rparr>"
    by (simp add: sample_env_def)
  show ?thesis
    using admin_gate_decides_on_header_only [of "with_headers [(''authorization'', ''Bearer valid-u1'')]"]
      a c bearer_token_valid
    by (simp add: get_admin_users_def)
qed

text \<open>
  C5. A request without the admin header of the right value and without an
  \<open>Authorization\<close> header from which a token can be read is answered 401 by the access
  gate, and no token verification takes place (the run has no event at all).
\<close>

theorem no_credentials_rejected_401:
  assumes "headers r ''x-admin-request'' \<noteq> Some ''true''"
    and "headers r ''authorization'' = None \<or> bearer_token r = None \<or> bearer_token r = Some []"
  shows "authMiddleware e r =
           (Respond 401 (Message ''No token or admin header, authorization denied''), [])"
proof -
  have "bearer_token r = None \<or> bearer_token r = Some []"
    using assms(2) by (auto simp: bearer_token_def header_authorization)
  then show ?thesis
    using assms(1) by (auto simp: authMiddleware_def header_admin)
qed

theorem no_credentials_rejected_401_witness:
  "headers (with_headers [(''x-admin-request'', ''TRUE'')]) ''x-admin-request'' \<noteq> Some ''true'' \<and>
   headers (with_headers [(''x-admin-request'', ''TRUE'')]) ''authorization'' = None \<and>
   authMiddleware sample_env (with_headers [(''x-admin-request'', ''TRUE'')]) =
     (Respond 401 (Message ''No token or admin header, authorization denied''), [])"
  using no_credentials_rejected_401 [of "with_headers [(''x-admin-request'', ''TRUE'')]" sample_env]
  by (simp add: with_headers_def sample_request_def)

text \<open>
  C6. A token whose signature is invalid and a token that is expired are refused by the
  access gate with the same response: status 401 and the message \<open>Token is not valid\<close>.
\<close>

theorem invalid_and_expired_tokens_indistinguishable:
  assumes "headers r1 ''x-admin-request'' \<noteq> Some ''true''"
    and "headers r2 ''x-admin-request'' \<noteq> Some ''true''"
    and "bearer_token r1 = Some t1" and "t1 \<noteq> []"
    and "bearer_token r2 = Some t2" and "t2 \<noteq> []"
    and "jwt_verify e t1 = Inl JsonWebTokenError"
    and "jwt_verify e t2 = Inl TokenExpiredError"
  shows "fst (authMiddleware e r1) = Respond 401 (Message ''Token is not valid'') \<and>
         fst (authMiddleware e r2) = fst (authMiddleware e r1)"
  using assms by (simp add: authMiddleware_def header_admin)

theorem invalid_and_expired_tokens_indistinguishable_witness:
  "bearer_token (with_headers [(''authorization'', ''Bearer forged'')]) = Some ''forged'' \<and>
   bearer_token (with_headers [(''authorization'', ''Bearer expired-u1'')]) = Some ''expired-u1'' \<and>
   jwt_verify sample_env ''forged'' = Inl JsonWebTokenError \<and>
   jwt_verify sample_env ''expired-u1'' = Inl TokenExpiredError \<and>
   fst (authMiddleware sample_env (with_headers [(''authorization'', ''Bearer forged'')])) =
     Respond 401 (Message ''Token is not valid'') \<and>
   fst (authMiddleware sample_env (with_headers [(''authorization'', ''Bearer expired-u1'')])) =
     fst (authMiddleware sample_env (with_headers [(''authorization'', ''Bearer forged'')]))"
proof -
  have a: "headers (with_headers [(''authorization'', ''Bearer forged'')]) ''x-admin-request'' \<noteq> Some ''true''"
    by (simp add: with_headers_def sample_request_def)
  have b: "headers (with_headers [(''authorization'', ''Bearer expired-u1'')]) ''x-admin-request'' \<noteq> Some ''true''"
    by (simp add: with_headers_def sample_request_def)
  have c: "jwt_verify sample_env ''forged'' = Inl JsonWebTokenError"
    by (simp add: sample_env_def)
  have d: "jwt_verify sample_env ''expired-u1'' = Inl TokenExpiredError"
    by (simp add: sample_env_def)
  show ?thesis
    using invalid_and_expired_tokens_indistinguishable
      [OF a b bearer_token_forged _ bearer_token_expired _ c d]
      bearer_token_forged bearer_token_expired c d
    by simp
qed

section \<open>Properties of the queries\<close>

lemma set_window: "set (window s l us) \<subseteq> set us"
  by (auto simp: window_def dest: in_set_takeD in_set_dropD)

lemma run_cursor_subset: "run_cursor e sk lm us = Inr vs \<Longrightarrow> set vs \<subseteq> set us"
  using set_window
  by (auto simp: run_cursor_def split: jsnum.splits if_splits sum.splits prod.splits)

lemma set_newest_first: "set (newest_first us) = set us"
  by (simp add: newest_first_def)

lemma newest_first_sorted: "sorted_wrt (\<lambda>a b. createdAt b \<le> createdAt a) (newest_first us)"
proof -
  have "sorted (map (\<lambda>u. - createdAt u) (newest_first us))"
    by (simp add: newest_first_def)
  then show ?thesis
    by (simp add: sorted_map sorted_wrt_iff_nth_less)
qed

lemma search_handler_results:
  assumes "search_handler e db r = Respond st (SearchResults us n pg lm tp)"
  shows "\<exists>c. req_user r = Some c \<and> (\<forall>u \<in> set us. u_id u \<noteq> userId c)"
proof (cases "req_user r")
  case None
  with assms show ?thesis by (simp add: search_handler_def)
next
  case (Some c)
  let ?f = "\<lparr>id_ne = userId c, conds = search_conditions r\<rparr>"
  from assms Some obtain vs where
    run: "run_cursor e (skip_offset (query_page r) (query_limit r)) (query_limit r)
            (newest_first (List.filter (matches e ?f) db)) = Inr vs"
    and us: "us = map select_minus_password vs"
    by (auto simp: search_handler_def Let_def split: if_splits sum.splits)
  have "set vs \<subseteq> set (List.filter (matches e ?f) db)"
    using run_cursor_subset [OF run] by (simp add: set_newest_first)
  then have "\<forall>v \<in> set vs. u_id v \<noteq> userId c"
    by (auto simp: matches_def)
  then have "\<forall>u \<in> set us. u_id u \<noteq> userId c"
    by (auto simp: us select_minus_password_def)
  with Some show ?thesis by simp
qed

text \<open>
  C7. Whenever the authenticated search answers a request with a result list, the request
  carried a bearer token that verifies, and no document of the list has the identifier of
  the token's subject, whatever the filter parameters, the page and the limit are.
\<close>

theorem search_never_returns_caller:
  assumes "req_user r = None"
    and "get_search e db r = Respond st (SearchResults us n pg lm tp)"
  shows "\<exists>t c. bearer_token r = Some t \<and> jwt_verify e t = Inr c \<and>
               (\<forall>u \<in> set us. u_id u \<noteq> userId c)"
proof -
  from assms(2) obtain r' where
    gate: "fst (authMiddleware e r) = Next r'"
    and h: "errorHandler (search_handler e db r') = Respond st (SearchResults us n pg lm tp)"
    using authMiddleware_Respond [of e r]
    by (auto simp: get_search_def behind_auth_def split: outcome.splits)
  from h have sh: "search_handler e db r' = Respond st (SearchResults us n pg lm tp)"
    by (auto simp: errorHandler_def split: outcome.splits)
  from search_handler_results [OF sh] obtain c where
    c: "req_user r' = Some c" and ex: "\<forall>u \<in> set us. u_id u \<noteq> userId c"
    by blast
  from authMiddleware_Next [OF gate] assms(1) c obtain t where
    "bearer_token r = Some t" "jwt_verify e t = Inr c"
    by auto
  with ex show ?thesis by blast
qed

lemma female_search_passes_gate:
  "fst (authMiddleware sample_env female_search) =
     Next (female_search\<lparr>req_user := Some \<lparr>userId = ''u1'', role = ''user''\<rparr>\<rparr>)"
  by (simp add: authMiddleware_def header_admin bearer_token_def header_authorization
      female_search_def with_headers_def sample_request_def sample_env_def)

lemma female_search_result:
  "get_search sample_env sample_db female_search =
     Respond 200
       (SearchResults [select_minus_password (sample_user ''u3'' ''Female'' 200)] 1 (Num 1) (Num 10)
          (Num 1))"
  unfolding get_search_def behind_auth_def female_search_passes_gate
  by (simp add: errorHandler_def search_handler_def female_search_def with_headers_def
      sample_request_def regexp_throws_def query_page_def query_limit_def skip_offset_def
      search_conditions_def truthy_def run_cursor_def window_def newest_first_def matches_def
      sample_db_def sample_user_def total_pages_def sample_env_def select_minus_password_def)

theorem search_never_returns_caller_witness:
  "req_user female_search = None \<and>
   get_search sample_env sample_db female_search =
     Respond 200
       (SearchResults [select_minus_password (sample_user ''u3'' ''Female'' 200)] 1 (Num 1) (Num 10)
          (Num 1)) \<and>
   (\<exists>t c. bearer_token female_search = Some t \<and> jwt_verify sample_env t = Inr c \<and>
          (\<forall>u \<in> set [select_minus_password (sample_user ''u3'' ''Female'' 200)].
             u_id u \<noteq> userId c))"
proof -
  have fresh: "req_user female_search = None"
    by (simp add: female_search_def with_headers_def sample_request_def)
  show ?thesis
    using search_never_returns_caller [OF fresh female_search_result] fresh female_search_result
    by simp
qed

lemma total_pages_ceiling:
  assumes "1 \<le> l"
  shows "total_pages n (Num l) = Num \<lceil>real n / real_of_int l\<rceil>"
proof -
  have "\<lceil>real_of_int (int n) / real_of_int l\<rceil> = - ((- int n) div l)"
    by (rule ceiling_divide_eq_div)
  then show ?thesis
    using assms by (simp add: total_pages_def)
qed

lemma run_cursor_page:
  assumes "1 \<le> p" "1 \<le> l"
  shows "run_cursor e (skip_offset (Num p) (Num l)) (Num l) us =
           Inr (take (nat l) (drop (nat ((p - 1) * l)) us))"
  using assms by (simp add: run_cursor_def skip_offset_def window_def)

lemma search_handler_page:
  assumes "1 \<le> p" "1 \<le> l"
    and "req_user r = Some c" and "castObjectId e (userId c)"
    and "\<not> regexp_throws e (query r ''location'')" and "\<not> regexp_throws e (query r ''religion'')"
    and "query_page r = Num p" and "query_limit r = Num l"
  shows "search_handler e db r =
           Respond 200
             (SearchResults
                (map select_minus_password
                   (take (nat l) (drop (nat ((p - 1) * l)) (newest_first (search_matching e c r db)))))
                (length (search_matching e c r db)) (Num p) (Num l)
                (Num \<lceil>real (length (search_matching e c r db)) / real_of_int l\<rceil>))"
  using assms
  by (simp add: search_handler_def Let_def run_cursor_page total_pages_ceiling search_matching_def)

lemma admin_users_handler_page:
  assumes "1 \<le> p" "1 \<le> l"
    and "admin_page r = Num p" and "admin_limit r = Num l"
  shows "admin_users_handler e db r =
           Respond 200
             (AdminUsers
                (map schema_default_select
                   (take (nat l) (drop (nat ((p - 1) * l)) (newest_first (admin_matching e r db)))))
                (length (admin_matching e r db))
                (Num \<lceil>real (length (admin_matching e r db)) / real_of_int l\<rceil>)
                (Num p) (Num l) (admin_filter_type r))"
  using assms
  by (simp add: admin_users_handler_def Let_def run_cursor_page total_pages_ceiling admin_matching_def)

lemma pagination_defaults:
  "(query r ''page'' = None \<longrightarrow> query_page r = Num 1 \<and> admin_page r = Num 1) \<and>
   (query r ''limit'' = None \<longrightarrow> query_limit r = Num 10 \<and> admin_limit r = Num 9)"
  by (simp add: query_page_def query_limit_def admin_page_def admin_limit_def or_default_def)

text \<open>
  C8. For a page \<open>p \<ge> 1\<close> and a page size \<open>l \<ge> 1\<close> (numbers a double holds exactly),
  the search and the admin listing answer with the documents that follow the first
  \<open>(p - 1) * l\<close> of the matching documents in newest-first order, at most \<open>l\<close> of them,
  with the number of matching documents as the total and \<open>ceil(total / l)\<close> as the number
  of pages. An absent \<open>page\<close> is page 1; an absent \<open>limit\<close> is 10 for the search and 9
  for the admin listing.
\<close>

theorem pagination_skips_and_counts:
  assumes "1 \<le> p" "1 \<le> l"
    and "in_safe_range p" "in_safe_range l" "in_safe_range ((p - 1) * l)"
    and "in_safe_range (int (length db))"
  shows
    "(req_user r = Some c \<and> castObjectId e (userId c) \<and>
      \<not> regexp_throws e (query r ''location'') \<and> \<not> regexp_throws e (query r ''religion'') \<and>
      query_page r = Num p \<and> query_limit r = Num l \<longrightarrow>
        search_handler e db r =
          Respond 200
            (SearchResults
               (map select_minus_password
                  (take (nat l) (drop (nat ((p - 1) * l)) (newest_first (search_matching e c r db)))))
               (length (search_matching e c r db)) (Num p) (Num l)
               (Num \<lceil>real (length (search_matching e c r db)) / real_of_int l\<rceil>))) \<and>
     (admin_page r = Num p \<and> admin_limit r = Num l \<longrightarrow>
        admin_users_handler e db r =
          Respond 200
            (AdminUsers
               (map schema_default_select
                  (take (nat l) (drop (nat ((p - 1) * l)) (newest_first (admin_matching e r db)))))
               (length (admin_matching e r db))
               (Num \<lceil>real (length (admin_matching e r db)) / real_of_int l\<rceil>)
               (Num p) (Num l) (admin_filter_type r))) \<and>
     (query r ''page'' = None \<longrightarrow> query_page r = Num 1 \<and> admin_page r = Num 1) \<and>
     (query r ''limit'' = None \<longrightarrow> query_limit r = Num 10 \<and> admin_limit r = Num 9)"
proof (intro conjI)
  show "req_user r = Some c \<and> castObjectId e (userId c) \<and>
      \<not> regexp_throws e (query r ''location'') \<and> \<not> regexp_throws e (query r ''religion'') \<and>
      query_page r = Num p \<and> query_limit r = Num l \<longrightarrow>
        search_handler e db r =
          Respond 200
            (SearchResults
               (map select_minus_password
                  (take (nat l) (drop (nat ((p - 1) * l)) (newest_first (search_matching e c r db)))))
               (length (search_matching e c r db)) (Num p) (Num l)
               (Num \<lceil>real (length (search_matching e c r db)) / real_of_int l\<rceil>))"
    using search_handler_page [OF assms(1,2)] by blast
  show "admin_page r = Num p \<and> admin_limit r = Num l \<longrightarrow>
        admin_users_handler e db r =
          Respond 200
            (AdminUsers
               (map schema_default_select
                  (take (nat l) (drop (nat ((p - 1) * l)) (newest_first (admin_matching e r db)))))
               (length (admin_matching e r db))
               (Num \<lceil>real (length (admin_matching e r db)) / real_of_int l\<rceil>)
               (Num p) (Num l) (admin_filter_type r))"
    using admin_users_handler_page [OF assms(1,2)] by blast
  show "query r ''page'' = None \<longrightarrow> query_page r = Num 1 \<and> admin_page r = Num 1"
    using pagination_defaults by blast
  show "query r ''limit'' = None \<longrightarrow> query_limit r = Num 10 \<and> admin_limit r = Num 9"
    using pagination_defaults by blast
qed

lemma paged_request_numbers:
  "query_page paged_request = Num 2 \<and> query_limit paged_request = Num 1 \<and>
   admin_page paged_request = Num 2 \<and> admin_limit paged_request = Num 1"
  by (simp add: query_page_def query_limit_def admin_page_def admin_limit_def or_default_def
      paged_request_def sample_request_def parseInt_def is_js_space_def digit_val_def
      radix_value_def)

lemma paged_request_search_matching:
  "newest_first (search_matching sample_env \<lparr>userId = ''u1'', role = ''user''\<rparr> paged_request sample_db) =
     [sample_user ''u2'' ''Male'' 300, sample_user ''u3'' ''Female'' 200]"
  by (simp add: search_matching_def matches_def search_conditions_def truthy_def newest_first_def
      paged_request_def sample_request_def sample_db_def sample_user_def)

lemma paged_request_admin_matching:
  "newest_first (admin_matching sample_env paged_request sample_db) =
     [sample_user ''u2'' ''Male'' 300, sample_user ''u3'' ''Female'' 200,
      sample_user ''u1'' ''Female'' 100]"
  by (simp add: admin_matching_def admin_matches_def admin_since_def admin_filter_type_def
      newest_first_def paged_request_def sample_request_def sample_db_def sample_user_def)

lemma length_newest_first: "length (newest_first us) = length us"
  by (simp add: newest_first_def)

theorem pagination_skips_and_counts_witness:
  "(1::int) \<le> 2 \<and> (1::int) \<le> 1 \<and> in_safe_range 2 \<and> in_safe_range 1 \<and>
   in_safe_range ((2 - 1) * 1) \<and> in_safe_range (int (length sample_db)) \<and>
   query_page paged_request = Num 2 \<and> query_limit paged_request = Num 1 \<and>
   admin_page paged_request = Num 2 \<and> admin_limit paged_request = Num 1 \<and>
   search_handler sample_env sample_db paged_request =
     Respond 200
       (SearchResults [select_minus_password (sample_user ''u3'' ''Female'' 200)] 2 (Num 2) (Num 1)
          (Num 2)) \<and>
   admin_users_handler sample_env sample_db paged_request =
     Respond 200
       (AdminUsers [schema_default_select (sample_user ''u3'' ''Female'' 200)] 3 (Num 3) (Num 2)
          (Num 1) ''recent'')"
proof -
  have safe: "in_safe_range 2" "in_safe_range 1" "in_safe_range ((2 - 1) * 1)"
    "in_safe_range (int (length sample_db))"
    by (simp_all add: in_safe_range_def sample_db_def)
  have pre: "req_user paged_request = Some \<lparr>userId = ''u1'', role = ''user''\<rparr> \<and>
             castObjectId sample_env (userId \<lparr>userId = ''u1'', role = ''user''\<rparr>) \<and>
             \<not> regexp_throws sample_env (query paged_request ''location'') \<and>
             \<not> regexp_throws sample_env (query paged_request ''religion'')"
    by (simp add: paged_request_def sample_request_def sample_env_def regexp_throws_def)
  have n1: "length (search_matching sample_env \<lparr>userId = ''u1'', role = ''user''\<rparr> paged_request sample_db) = 2"
    using arg_cong [OF paged_request_search_matching, of length]
    by (simp add: length_newest_first)
  have n2: "length (admin_matching sample_env paged_request sample_db) = 3"
    using arg_cong [OF paged_request_admin_matching, of length]
    by (simp add: length_newest_first)
  have ft: "admin_filter_type paged_request = ''recent''"
    by (simp add: admin_filter_type_def paged_request_def sample_request_def)
  from pagination_skips_and_counts
    [of 2 1 sample_db paged_request "\<lparr>userId = ''u1'', role = ''user''\<rparr>" sample_env, OF _ _ safe]
    pre paged_request_numbers
  have "search_handler sample_env sample_db paged_request =
          Respond 200
            (SearchResults [select_minus_password (sample_user ''u3'' ''Female'' 200)] 2 (Num 2) (Num 1)
               (Num 2))"
    and "admin_users_handler sample_env sample_db paged_request =
            Respond 200
              (AdminUsers [schema_default_select (sample_user ''u3'' ''Female'' 200)] 3 (Num 3) (Num 2)
                 (Num 1) ''recent'')"
    by (simp_all add: paged_request_search_matching paged_request_admin_matching n1 n2 ft)
  with safe paged_request_numbers show ?thesis by simp
qed

lemma response_users_errorHandler:
  "response_users (errorHandler out) = response_users out"
  by (simp add: errorHandler_def response_users_def payload_users_def split: outcome.splits)

lemma behind_auth_users:
  assumes "\<And>r'. \<forall>u \<in> set (response_users (handler r')). password u = None"
  shows "\<forall>u \<in> set (response_users (behind_auth e handler r)). password u = None"
proof (cases "fst (authMiddleware e r)")
  case (Next r')
  then show ?thesis
    using assms [of r'] by (simp add: behind_auth_def response_users_errorHandler)
next
  case (Respond st b)
  then show ?thesis
    using authMiddleware_Respond [OF Respond]
    by (auto simp: behind_auth_def response_users_def payload_users_def)
next
  case (NextErr err)
  then show ?thesis
    by (simp add: authMiddleware_not_NextErr)
qed

lemma behind_static_admin_users:
  assumes "\<And>r'. \<forall>u \<in> set (response_users (handler r')). password u = None"
  shows "\<forall>u \<in> set (response_users (behind_static_admin handler r)). password u = None"
proof (cases "headers r ''x-admin-request'' = Some ''true''")
  case True
  then show ?thesis
    using assms [of r]
    by (simp add: behind_static_admin_def staticAdminMiddleware_def response_users_errorHandler)
next
  case False
  then show ?thesis
    by (simp add: behind_static_admin_def staticAdminMiddleware_def response_users_def
        payload_users_def)
qed

lemma search_handler_users:
  "\<forall>u \<in> set (response_users (search_handler e db r)). password u = None"
  by (auto simp: search_handler_def Let_def response_users_def payload_users_def
      select_minus_password_def split: option.splits sum.splits)

lemma list_handler_users:
  "\<forall>u \<in> set (response_users (list_handler e db r)). password u = None"
  by (auto simp: list_handler_def Let_def response_users_def payload_users_def
      select_minus_password_def split: sum.splits)

lemma profile_handler_users:
  "\<forall>u \<in> set (response_users (profile_handler e db r)). password u = None"
  by (auto simp: profile_handler_def response_users_def payload_users_def
      select_minus_password_def split: sum.splits option.splits)

lemma me_handler_users:
  "\<forall>u \<in> set (response_users (me_handler e db r)). password u = None"
  by (auto simp: me_handler_def response_users_def payload_users_def
      select_minus_password_def split: sum.splits option.splits)

lemma admin_users_handler_users:
  "\<forall>u \<in> set (response_users (admin_users_handler e db r)). password u = None"
  by (auto simp: admin_users_handler_def Let_def response_users_def payload_users_def
      schema_default_select_def split: sum.splits)

lemma admin_user_handler_users:
  "\<forall>u \<in> set (response_users (admin_user_handler e db r)). password u = None"
  by (auto simp: admin_user_handler_def response_users_def payload_users_def
      schema_default_select_def delete_password_def split: sum.splits option.splits)

text \<open>
  C9. No user document in the response of a read operation (search, public listing,
  profile by id, own profile, admin listing, admin read of one user) has the password hash.
\<close>

theorem query_payloads_carry_no_password:
  "(\<forall>u \<in> set (response_users (get_search e db r)). password u = None) \<and>
   (\<forall>u \<in> set (response_users (get_profiles e db r)). password u = None) \<and>
   (\<forall>u \<in> set (response_users (get_profile e db r)). password u = None) \<and>
   (\<forall>u \<in> set (response_users (get_me e db r)). password u = None) \<and>
   (\<forall>u \<in> set (response_users (get_admin_users e db r)). password u = None) \<and>
   (\<forall>u \<in> set (response_users (get_admin_user e db r)). password u = None)"
proof (intro conjI)
  show "\<forall>u \<in> set (response_users (get_search e db r)). password u = None"
    unfolding get_search_def by (rule behind_auth_users) (rule search_handler_users)
  show "\<forall>u \<in> set (response_users (get_profiles e db r)). password u = None"
    unfolding get_profiles_def response_users_errorHandler by (rule list_handler_users)
  show "\<forall>u \<in> set (response_users (get_profile e db r)). password u = None"
    unfolding get_profile_def by (rule behind_auth_users) (rule profile_handler_users)
  show "\<forall>u \<in> set (response_users (get_me e db r)). password u = None"
    unfolding get_me_def by (rule behind_auth_users) (rule me_handler_users)
  show "\<forall>u \<in> set (response_users (get_admin_users e db r)). password u = None"
    unfolding get_admin_users_def by (rule behind_static_admin_users) (rule admin_users_handler_users)
  show "\<forall>u \<in> set (response_users (get_admin_user e db r)). password u = None"
    unfolding get_admin_user_def by (rule behind_static_admin_users) (rule admin_user_handler_users)
qed

lemma member_request_passes_gate:
  "fst (authMiddleware sample_env member_request) =
     Next (member_request\<lparr>req_user := Some \<lparr>userId = ''u1'', role = ''user''\<rparr>\<rparr>)"
  by (simp add: authMiddleware_def header_admin bearer_token_def header_authorization
      member_request_def with_headers_def sample_request_def sample_env_def)

lemma member_request_search:
  "response_users (get_search sample_env sample_db member_request) =
     [select_minus_password (sample_user ''u3'' ''Female'' 200)]"
  unfolding get_search_def behind_auth_def member_request_passes_gate
  by (simp add: errorHandler_def search_handler_def member_request_def with_headers_def
      sample_request_def regexp_throws_def query_page_def query_limit_def skip_offset_def
      search_conditions_def truthy_def run_cursor_def window_def newest_first_def matches_def
      sample_db_def sample_user_def total_pages_def sample_env_def select_minus_password_def
      response_users_def payload_users_def)

lemma member_request_profiles:
  "response_users (get_profiles sample_env sample_db member_request) =
     map select_minus_password
       [sample_user ''u2'' ''Male'' 300, sample_user ''u3'' ''Female'' 200,
        sample_user ''u1'' ''Female'' 100]"
  by (simp add: get_profiles_def errorHandler_def list_handler_def member_request_def with_headers_def
      sample_request_def query_page_def query_limit_def skip_offset_def
      run_cursor_def window_def newest_first_def
      sample_db_def sample_user_def response_users_def payload_users_def)

lemma member_request_profile:
  "response_users (get_profile sample_env sample_db member_request) =
     [select_minus_password (sample_user ''u2'' ''Male'' 300)]"
  unfolding get_profile_def behind_auth_def member_request_passes_gate
  by (simp add: errorHandler_def profile_handler_def findById_def member_request_def with_headers_def
      sample_request_def sample_db_def sample_user_def sample_env_def
      response_users_def payload_users_def)

lemma member_request_me:
  "response_users (get_me sample_env sample_db member_request) =
     [select_minus_password (sample_user ''u1'' ''Female'' 100)]"
  unfolding get_me_def behind_auth_def member_request_passes_gate
  by (simp add: errorHandler_def me_handler_def findById_def member_request_def with_headers_def
      sample_request_def sample_db_def sample_user_def sample_env_def
      response_users_def payload_users_def)

lemma admin_request_passes_gate:
  "fst (staticAdminMiddleware admin_request) = Next admin_request"
  by (simp add: staticAdminMiddleware_def admin_request_def with_headers_def sample_request_def)

lemma admin_request_users:
  "response_users (get_admin_users sample_env sample_db admin_request) =
     map schema_default_select
       [sample_user ''u2'' ''Male'' 300, sample_user ''u3'' ''Female'' 200,
        sample_user ''u1'' ''Female'' 100]"
  unfolding get_admin_users_def behind_static_admin_def admin_request_passes_gate
  by (simp add: Let_def errorHandler_def admin_users_handler_def admin_request_def with_headers_def
      sample_request_def admin_page_def admin_limit_def or_default_def skip_offset_def
      admin_filter_type_def admin_since_def admin_matches_def
      run_cursor_def window_def newest_first_def
      sample_db_def sample_user_def response_users_def payload_users_def)

lemma admin_request_user:
  "response_users (get_admin_user sample_env sample_db admin_request) =
     [delete_password (schema_default_select (sample_user ''u2'' ''Male'' 300))]"
  unfolding get_admin_user_def behind_static_admin_def admin_request_passes_gate
  by (simp add: errorHandler_def admin_user_handler_def findById_def admin_request_def with_headers_def
      sample_request_def sample_db_def sample_user_def sample_env_def
      response_users_def payload_users_def)

theorem query_payloads_carry_no_password_witness:
  "map password sample_db = [Some ''hash-of-u1'', Some ''hash-of-u2'', Some ''hash-of-u3''] \<and>
   response_users (get_search sample_env sample_db member_request) =
     [select_minus_password (sample_user ''u3'' ''Female'' 200)] \<and>
   response_users (get_profile sample_env sample_db member_request) =
     [select_minus_password (sample_user ''u2'' ''Male'' 300)] \<and>
   response_users (get_me sample_env sample_db member_request) =
     [select_minus_password (sample_user ''u1'' ''Female'' 100)] \<and>
   response_users (get_admin_user sample_env sample_db admin_request) =
     [delete_password (schema_default_select (sample_user ''u2'' ''Male'' 300))] \<and>
   map password (response_users (get_search sample_env sample_db member_request)) = [None] \<and>
   map password (response_users (get_profiles sample_env sample_db member_request)) =
     [None, None, None] \<and>
   map password (response_users (get_profile sample_env sample_db member_request)) = [None] \<and>
   map password (response_users (get_me sample_env sample_db member_request)) = [None] \<and>
   map password (response_users (get_admin_users sample_env sample_db admin_request)) =
     [None, None, None] \<and>
   map password (response_users (get_admin_user sample_env sample_db admin_request)) = [None]"
proof -
  have stored: "map password sample_db = [Some ''hash-of-u1'', Some ''hash-of-u2'', Some ''hash-of-u3'']"
    by (simp add: sample_db_def sample_user_def)
  have all_None: "map password us = replicate (length us) None"
    if "\<forall>u \<in> set us. password u = None" for us :: "user list"
    using that by (induction us) simp_all
  note member = query_payloads_carry_no_password [of sample_env sample_db member_request]
  note admin = query_payloads_carry_no_password [of sample_env sample_db admin_request]
  have "map password (response_users (get_search sample_env sample_db member_request)) = [None]"
    using all_None [OF member [THEN conjunct1]] by (simp add: member_request_search)
  moreover have "map password (response_users (get_profiles sample_env sample_db member_request)) =
      [None, None, None]"
    using all_None [OF member [THEN conjunct2, THEN conjunct1]]
    by (simp add: member_request_profiles)
  moreover have "map password (response_users (get_profile sample_env sample_db member_request)) = [None]"
    using all_None [OF member [THEN conjunct2, THEN conjunct2, THEN conjunct1]]
    by (simp add: member_request_profile)
  moreover have "map password (response_users (get_me sample_env sample_db member_request)) = [None]"
    using all_None [OF member [THEN conjunct2, THEN conjunct2, THEN conjunct2, THEN conjunct1]]
    by (simp add: member_request_me)
  moreover have "map password (response_users (get_admin_users sample_env sample_db admin_request)) =
      [None, None, None]"
    using all_None [OF admin [THEN conjunct2, THEN conjunct2, THEN conjunct2, THEN conjunct2,
          THEN conjunct1]]
    by (simp add: admin_request_users)
  moreover have "map password (response_users (get_admin_user sample_env sample_db admin_request)) = [None]"
    using all_None [OF admin [THEN conjunct2, THEN conjunct2, THEN conjunct2, THEN conjunct2,
          THEN conjunct2]]
    by (simp add: admin_request_user)
  ultimately show ?thesis
    using stored member_request_search member_request_profile member_request_me admin_request_user
    by simp
qed

text \<open>
  C10. A request that passes the access gate by the admin header keeps an absent
  \<open>req.user\<close>: the gate attaches the decoded identity only after it has verified a bearer
  token. The search handler, which reads \<open>req.user.userId\<close>, then fails with a TypeError,
  which the error handler answers with status 500.
\<close>

theorem admin_bypass_attaches_no_identity:
  assumes "headers r ''x-admin-request'' = Some ''true''" and "req_user r = None"
  shows "(\<exists>r'. fst (authMiddleware e r) = Next r' \<and> req_user r' = None) \<and>
         search_handler e db r = NextErr TypeError \<and>
         get_search e db r = Respond 500 (ErrorBody TypeError) \<and>
         (\<forall>e2 r2 r3 c. fst (authMiddleware e2 r2) = Next r3 \<and> req_user r2 = None \<and>
             req_user r3 = Some c \<longrightarrow>
           headers r2 ''x-admin-request'' \<noteq> Some ''true'' \<and>
           (\<exists>t. bearer_token r2 = Some t \<and> jwt_verify e2 t = Inr c))"
proof (intro conjI)
  show "\<exists>r'. fst (authMiddleware e r) = Next r' \<and> req_user r' = None"
    using assms by (simp add: authMiddleware_admin)
  show sh: "search_handler e db r = NextErr TypeError"
    using assms(2) by (simp add: search_handler_def)
  show "get_search e db r = Respond 500 (ErrorBody TypeError)"
    using assms(1) sh by (simp add: get_search_def behind_auth_def authMiddleware_admin errorHandler_def)
  show "\<forall>e2 r2 r3 c. fst (authMiddleware e2 r2) = Next r3 \<and> req_user r2 = None \<and>
             req_user r3 = Some c \<longrightarrow>
           headers r2 ''x-admin-request'' \<noteq> Some ''true'' \<and>
           (\<exists>t. bearer_token r2 = Some t \<and> jwt_verify e2 t = Inr c)"
  proof (intro allI impI)
    fix e2 r2 r3 c
    assume a: "fst (authMiddleware e2 r2) = Next r3 \<and> req_user r2 = None \<and> req_user r3 = Some c"
    then show "headers r2 ''x-admin-request'' \<noteq> Some ''true'' \<and>
           (\<exists>t. bearer_token r2 = Some t \<and> jwt_verify e2 t = Inr c)"
      using authMiddleware_Next [of e2 r2 r3] by auto
  qed
qed

theorem admin_bypass_attaches_no_identity_witness:
  "headers admin_request ''x-admin-request'' = Some ''true'' \<and> req_user admin_request = None \<and>
   fst (authMiddleware sample_env admin_request) = Next admin_request \<and>
   search_handler sample_env sample_db admin_request = NextErr TypeError \<and>
   get_search sample_env sample_db admin_request = Respond 500 (ErrorBody TypeError) \<and>
   fst (authMiddleware sample_env member_request) =
     Next (member_request\<lparr>req_user := Some \<lparr>userId = ''u1'', role = ''user''\<rparr>\<rparr>) \<and>
   headers member_request ''x-admin-request'' \<noteq> Some ''true'' \<and>
   (\<exists>t. bearer_token member_request = Some t \<and>
        jwt_verify sample_env t = Inr \<lparr>userId = ''u1'', role = ''user''\<rparr>)"
proof -
  have a: "headers admin_request ''x-admin-request'' = Some ''true''"
    and b: "req_user admin_request = None"
    by (simp_all add: admin_request_def with_headers_def sample_request_def)
  have c: "req_user member_request = None"
    by (simp add: member_request_def with_headers_def sample_request_def)
  have g: "fst (authMiddleware sample_env admin_request) = Next admin_request"
    using a by (simp add: authMiddleware_admin)
  from admin_bypass_attaches_no_identity [OF a b, of sample_env sample_db]
  have sh: "search_handler sample_env sample_db admin_request = NextErr TypeError"
    and gs: "get_search sample_env sample_db admin_request = Respond 500 (ErrorBody TypeError)"
    and only: "\<forall>e2 r2 r3 c. fst (authMiddleware e2 r2) = Next r3 \<and> req_user r2 = None \<and>
             req_user r3 = Some c \<longrightarrow>
           headers r2 ''x-admin-request'' \<noteq> Some ''true'' \<and>
           (\<exists>t. bearer_token r2 = Some t \<and> jwt_verify e2 t = Inr c)"
    by blast+
  have "headers member_request ''x-admin-request'' \<noteq> Some ''true'' \<and>
        (\<exists>t. bearer_token member_request = Some t \<and>
             jwt_verify sample_env t = Inr \<lparr>userId = ''u1'', role = ''user''\<rparr>)"
    using only [rule_format, of sample_env member_request
        "member_request\<lparr>req_user := Some \<lparr>userId = ''u1'', role = ''user''\<rparr>\<rparr>"
        "\<lparr>userId = ''u1'', role = ''user''\<rparr>"]
      member_request_passes_gate c
    by simp
  with a b g sh gs member_request_passes_gate show ?thesis by simp
qed

section \<open>Properties of the upload admission pipeline\<close>

lemma canonical_extensions:
  "map (map canonical) image_extensions = [''JPG'', ''JPEG'', ''PNG'', ''GIF'']"
  by code_simp

lemma canonical_dot: "canonical CHR ''.'' = CHR ''.''"
  by code_simp

lemma pattern_matches_at_iff:
  "pattern_matches_at t \<longleftrightarrow>
     (\<exists>rest. t = CHR ''.'' # rest \<and> list_ex (same_ignoring_case rest) image_extensions)"
  by (auto simp: pattern_matches_at_def matches_literal_to_end_def same_ignoring_case_def
      image_extensions_def split: list.splits)

lemma no_dot_in_extension:
  assumes "list_ex (same_ignoring_case rest) image_extensions"
  shows "CHR ''.'' \<notin> set rest"
proof
  assume dot: "CHR ''.'' \<in> set rest"
  from assms obtain x where x: "x \<in> set image_extensions" and eq: "map canonical rest = map canonical x"
    by (auto simp: list_ex_iff same_ignoring_case_def)
  from dot have "canonical CHR ''.'' \<in> set (map canonical rest)"
    by simp
  then have "CHR ''.'' \<in> set (map canonical x)"
    by (simp only: canonical_dot eq)
  moreover have "map canonical x \<in> set (map (map canonical) image_extensions)"
    using x by simp
  ultimately show False
    by (auto simp: canonical_extensions)
qed

lemma image_name_match_append:
  "pattern_matches_at t \<Longrightarrow> image_name_match (pre @ t)"
proof (induction pre)
  case Nil
  then show ?case by (cases t) simp_all
next
  case (Cons c pre)
  then show ?case by simp
qed

lemma image_name_match_split:
  "image_name_match s \<Longrightarrow> \<exists>pre t. s = pre @ t \<and> pattern_matches_at t"
proof (induction s)
  case Nil
  then show ?case by simp
next
  case (Cons c s)
  show ?case
  proof (cases "pattern_matches_at (c # s)")
    case True
    then show ?thesis by (metis append_Nil)
  next
    case False
    with Cons.prems have "image_name_match s" by simp
    with Cons.IH obtain pre t where "s = pre @ t" "pattern_matches_at t" by blast
    then show ?thesis by (metis append_Cons)
  qed
qed

lemma extension_of_append:
  assumes "CHR ''.'' \<notin> set rest"
  shows "extension_of (pre @ CHR ''.'' # rest) = Some rest"
proof -
  have "takeWhile (\<lambda>c. c \<noteq> CHR ''.'') (rev rest @ CHR ''.'' # rev pre) = rev rest"
    by (subst takeWhile_append2) (use assms in auto)
  then show ?thesis
    by (simp add: extension_of_def)
qed

lemma extension_of_Some:
  assumes "extension_of s = Some x"
  shows "\<exists>pre. s = pre @ CHR ''.'' # x"
proof -
  let ?P = "\<lambda>c. c \<noteq> CHR ''.''"
  from assms have dot: "CHR ''.'' \<in> set s" and x: "x = rev (takeWhile ?P (rev s))"
    by (auto simp: extension_of_def split: if_splits)
  from dot have "dropWhile ?P (rev s) \<noteq> []"
    by (simp add: dropWhile_eq_Nil_conv) 
  then obtain d ds where d: "dropWhile ?P (rev s) = d # ds"
    by (cases "dropWhile ?P (rev s)") auto
  have "\<not> ?P (hd (dropWhile ?P (rev s)))"
    by (rule hd_dropWhile) (rule \<open>dropWhile ?P (rev s) \<noteq> []\<close>)
  then have "\<not> ?P d"
    by (simp add: d)
  then have "d = CHR ''.''" by simp
  have "rev s = takeWhile ?P (rev s) @ dropWhile ?P (rev s)" by simp
  then have "rev s = rev x @ CHR ''.'' # ds"
    using d \<open>d = CHR ''.''\<close> x by simp
  then have "rev (rev s) = rev (rev x @ CHR ''.'' # ds)"
    by (simp only:)
  then have "s = rev ds @ CHR ''.'' # x"
    by simp
  then show ?thesis by blast
qed

lemma image_name_match_iff: "image_name_match name \<longleftrightarrow> has_image_extension name"
proof
  assume "image_name_match name"
  then obtain pre t where s: "name = pre @ t" and t: "pattern_matches_at t"
    using image_name_match_split by blast
  from t obtain rest where rest: "t = CHR ''.'' # rest"
    and ok: "list_ex (same_ignoring_case rest) image_extensions"
    by (auto simp: pattern_matches_at_iff)
  have "extension_of name = Some rest"
    unfolding s rest by (rule extension_of_append) (rule no_dot_in_extension [OF ok])
  with ok show "has_image_extension name"
    by (simp add: has_image_extension_def)
next
  assume "has_image_extension name"
  then obtain x where x: "extension_of name = Some x"
    and ok: "list_ex (same_ignoring_case x) image_extensions"
    by (auto simp: has_image_extension_def split: option.splits)
  from extension_of_Some [OF x] obtain pre where "name = pre @ CHR ''.'' # x" by blast
  moreover have "pattern_matches_at (CHR ''.'' # x)"
    using ok by (simp add: pattern_matches_at_iff)
  ultimately show "image_name_match name"
    by (simp add: image_name_match_append)
qed

lemma fileFilter_accepts_iff:
  "snd (fileFilter r f) = Accept \<longleftrightarrow> has_image_extension (originalname f)"
  by (simp add: fileFilter_def image_name_match_iff)

lemma register_fileFilter_accepts_iff:
  "snd (register_fileFilter r f) = Accept \<longleftrightarrow> take 6 (mimetype f) = ''image/''"
  by (simp add: register_fileFilter_def)

lemma uploadMiddleware_rejects:
  assumes "upload r = Some f" and "fieldname f = ''profileImage''"
    and "\<not> has_image_extension (originalname f)"
  shows "uploadMiddleware e fs r =
           (Respond 400 (Message ''Only image files (jpg, jpeg, png, gif) are allowed!''), fs)"
  using assms
  by (simp add: uploadMiddleware_def multer_single_def fileFilter_def image_name_match_iff truthy_def)

lemma post_register_rejects:
  assumes "upload r = Some f" and "fieldname f = ''profileImage''"
    and "take 6 (mimetype f) \<noteq> ''image/''"
  shows "post_register e db fs r =
           (Respond 400 (FileRejected ''Not an image! Please upload only images.''), db, fs)"
  using assms
  by (simp add: post_register_def multer_single_def register_fileFilter_def)

lemma notes_txt_not_image: "\<not> has_image_extension (originalname text_file_declared_image)"
  by code_simp

lemma me_PNG_image: "has_image_extension (originalname photo_declared_text)"
  by code_simp

lemma stored_name_of_text_file:
  "generated_filename sample_env text_file_declared_image =
     ''profileImage-1700000000000-123456789.txt''"
  by code_simp

lemma stored_name_of_photo:
  "generated_filename sample_env photo = ''profileImage-1700000000000-123456789.PNG''"
  by code_simp

text \<open>
  C2, as amended. The pipeline of middleware/upload.js accepts a file exactly when the
  extension of its original name is one of jpg, jpeg, png, gif, whatever the case of the
  letters; the registration pipeline accepts a file exactly when its declared media type
  starts with \<open>image/\<close>, whatever its name. A file a pipeline refuses is answered with
  status 400 and the filter's message, and the storage is left as it was.
\<close>

theorem upload_admission_per_pipeline:
  "(snd (fileFilter r f) = Accept \<longleftrightarrow> has_image_extension (originalname f)) \<and>
   (snd (register_fileFilter r f) = Accept \<longleftrightarrow> take 6 (mimetype f) = ''image/'') \<and>
   (upload r = Some f \<and> fieldname f = ''profileImage'' \<and>
    \<not> has_image_extension (originalname f) \<longrightarrow>
      uploadMiddleware e fs r =
        (Respond 400 (Message ''Only image files (jpg, jpeg, png, gif) are allowed!''), fs)) \<and>
   (upload r = Some f \<and> fieldname f = ''profileImage'' \<and> take 6 (mimetype f) \<noteq> ''image/'' \<longrightarrow>
      post_register e db fs r =
        (Respond 400 (FileRejected ''Not an image! Please upload only images.''), db, fs))"
  using fileFilter_accepts_iff register_fileFilter_accepts_iff uploadMiddleware_rejects
    post_register_rejects
  by blast

theorem upload_admission_per_pipeline_witness:
  "snd (fileFilter (sample_request\<lparr>upload := Some text_file_declared_image\<rparr>) text_file_declared_image)
     \<noteq> Accept \<and>
   snd (fileFilter (sample_request\<lparr>upload := Some photo_declared_text\<rparr>) photo_declared_text) = Accept \<and>
   snd (register_fileFilter (sample_request\<lparr>upload := Some text_file_declared_image\<rparr>)
          text_file_declared_image) = Accept \<and>
   snd (register_fileFilter (sample_request\<lparr>upload := Some photo_declared_text\<rparr>) photo_declared_text)
     \<noteq> Accept \<and>
   uploadMiddleware sample_env {} (sample_request\<lparr>upload := Some text_file_declared_image\<rparr>) =
     (Respond 400 (Message ''Only image files (jpg, jpeg, png, gif) are allowed!''), {}) \<and>
   post_register sample_env sample_db {} (sample_request\<lparr>upload := Some photo_declared_text\<rparr>) =
     (Respond 400 (FileRejected ''Not an image! Please upload only images.''), sample_db, {})"
proof -
  have a: "upload (sample_request\<lparr>upload := Some text_file_declared_image\<rparr>) = Some text_file_declared_image \<and>
           fieldname text_file_declared_image = ''profileImage'' \<and>
           take 6 (mimetype text_file_declared_image) = ''image/''"
    by (simp add: text_file_declared_image_def)
  have b: "upload (sample_request\<lparr>upload := Some photo_declared_text\<rparr>) = Some photo_declared_text \<and>
           fieldname photo_declared_text = ''profileImage'' \<and>
           take 6 (mimetype photo_declared_text) \<noteq> ''image/''"
    by (simp add: photo_declared_text_def)
  show ?thesis
    using upload_admission_per_pipeline
        [of "sample_request\<lparr>upload := Some text_file_declared_image\<rparr>" text_file_declared_image
          sample_env "{}" sample_db]
      upload_admission_per_pipeline
        [of "sample_request\<lparr>upload := Some photo_declared_text\<rparr>" photo_declared_text
          sample_env "{}" sample_db]
      a b notes_txt_not_image me_PNG_image
    by simp
qed

text \<open>
  C2, as stated, fails on the registration pipeline: it accepts and stores \<open>notes.txt\<close>
  declared as \<open>image/png\<close>, whose extension is not on the allow-list, and refuses
  \<open>me.PNG\<close> declared as \<open>text/plain\<close>, whose extension is.
\<close>

theorem registration_admits_text_file_counterexample:
  "\<not> has_image_extension (originalname text_file_declared_image) \<and>
   snd (register_fileFilter (sample_request\<lparr>upload := Some text_file_declared_image\<rparr>)
          text_file_declared_image) = Accept \<and>
   snd (snd (multer_single ''profileImage'' (5 * 1024 * 1024) register_fileFilter
               ''uploads/profile-pictures'' sample_env {}
               (sample_request\<lparr>upload := Some text_file_declared_image\<rparr>))) =
     {''uploads/profile-pictures/profileImage-1700000000000-123456789.txt''} \<and>
   has_image_extension (originalname photo_declared_text) \<and>
   post_register sample_env sample_db {} (sample_request\<lparr>upload := Some photo_declared_text\<rparr>) =
     (Respond 400 (FileRejected ''Not an image! Please upload only images.''), sample_db, {})"
proof -
  have "snd (snd (multer_single ''profileImage'' (5 * 1024 * 1024) register_fileFilter
               ''uploads/profile-pictures'' sample_env {}
               (sample_request\<lparr>upload := Some text_file_declared_image\<rparr>))) =
     {''uploads/profile-pictures/profileImage-1700000000000-123456789.txt''}"
    by (simp add: multer_single_def register_fileFilter_def stored_name_of_text_file Let_def)
       (simp add: text_file_declared_image_def)
  moreover have "snd (register_fileFilter (sample_request\<lparr>upload := Some text_file_declared_image\<rparr>)
          text_file_declared_image) = Accept"
    by (simp add: register_fileFilter_def text_file_declared_image_def)
  moreover have "post_register sample_env sample_db {} (sample_request\<lparr>upload := Some photo_declared_text\<rparr>) =
     (Respond 400 (FileRejected ''Not an image! Please upload only images.''), sample_db, {})"
    by (simp add: post_register_def multer_single_def register_fileFilter_def photo_declared_text_def)
  ultimately show ?thesis
    using notes_txt_not_image me_PNG_image by simp
qed

section \<open>Uploaded files after a failed operation\<close>

lemma stored_name_of_photo_failing_store:
  "generated_filename failing_store photo = ''profileImage-1700000000000-123456789.PNG''"
  by code_simp

lemma photo_accepted_by_name: "image_name_match (originalname photo)"
  by code_simp

lemma lower_new_email: "toLowerCase ''new@example.com'' = ''new@example.com''"
  by code_simp

lemma incomplete_registration_keeps_file:
  "post_register sample_env sample_db {} incomplete_registration =
     (Respond 400 (Failure ''Missing essential registration fields.''), sample_db,
      {''uploads/profile-pictures/profileImage-1700000000000-123456789.PNG''})"
  by (simp add: post_register_def multer_single_def incomplete_registration_def sample_request_def
      register_fileFilter_def stored_name_of_photo Let_def register_handler_def essential_fields_def
      truthy_def)
     (simp add: photo_def)

lemma picture_for_absent_user_passes_gate:
  "fst (authMiddleware sample_env picture_for_absent_user) =
     Next (picture_for_absent_user\<lparr>req_user := Some \<lparr>userId = ''u1'', role = ''user''\<rparr>\<rparr>)"
  by (simp add: authMiddleware_def header_admin bearer_token_def header_authorization
      picture_for_absent_user_def with_headers_def sample_request_def sample_env_def)

lemma picture_for_absent_user_keeps_file:
  "post_upload_picture sample_env [sample_user ''u2'' ''Male'' 300] {} picture_for_absent_user =
     (Respond 404 (Message ''User not found for picture update''), [sample_user ''u2'' ''Male'' 300],
      {''uploads/profile-pics/profileImage-1700000000000-123456789.PNG''})"
  unfolding post_upload_picture_def picture_for_absent_user_passes_gate
  by (simp add: uploadMiddleware_def multer_single_def fileFilter_def photo_accepted_by_name
      stored_name_of_photo Let_def truthy_def upload_picture_handler_def header_admin
      findByIdAndUpdate_def errorHandler_def
      picture_for_absent_user_def with_headers_def sample_request_def)
     (simp add: photo_def sample_env_def sample_user_def)

lemma failed_save_keeps_file:
  "post_register failing_store sample_db {} complete_registration =
     (Respond 500 (Failure ''Server error during registration.''), sample_db,
      {''uploads/profile-pictures/profileImage-1700000000000-123456789.PNG''})"
  by (simp add: post_register_def multer_single_def complete_registration_def sample_request_def
      register_fileFilter_def stored_name_of_photo_failing_store Let_def register_handler_def
      essential_fields_def truthy_def field_or_empty_def lower_new_email)
     (simp add: photo_def sample_db_def sample_user_def failing_store_def sample_env_def)

text \<open>The two branches of the registration handler that do remove the file: the
  conflict on email or mobile number, and the validation error of the save.\<close>

lemma register_conflict_unlinks:
  assumes "list_all (\<lambda>k. truthy (body r k)) essential_fields"
    and "find (\<lambda>u. email u = toLowerCase (field_or_empty r ''email'') \<or>
                    mobileNumber u = field_or_empty r ''mobileNumber'') db = Some existing"
    and "req_file r = Some f"
  shows "\<exists>msg. register_handler e db fs r = (Respond 400 (Failure msg), db, fs - {path f})"
  using assms by (simp add: register_handler_def Let_def unlink_def)

lemma register_validation_error_unlinks:
  assumes "list_all (\<lambda>k. truthy (body r k)) essential_fields"
    and "find (\<lambda>u. email u = toLowerCase (field_or_empty r ''email'') \<or>
                    mobileNumber u = field_or_empty r ''mobileNumber'') db = None"
    and "model_save e db (new_user r) = Inl (ValidationError errs)"
    and "req_file r = Some f"
  shows "register_handler e db fs r =
           (Respond 400 (ValidationFailed ''Validation failed. Please check your input.'' errs), db,
            fs - {path f})"
  using assms by (simp add: register_handler_def Let_def unlink_def handleValidationError_def)

text \<open>The picture upload never removes a file, whatever its outcome; a registration that
  lacks an essential field answers 400 with the file it has just written still stored.\<close>

lemma upload_picture_never_unlinks: "fs \<subseteq> snd (snd (post_upload_picture e db fs r))"
  by (auto simp: post_upload_picture_def uploadMiddleware_def multer_single_def Let_def
      split: outcome.splits prod.splits option.splits if_splits upload_error.splits
        filter_result.splits)

lemma register_missing_fields_keeps_file:
  assumes "upload r = Some f" and "fieldname f = ''profileImage''"
    and "take 6 (mimetype f) = ''image/''" and "byte_size f \<le> 5 * 1024 * 1024"
    and "\<not> list_all (\<lambda>k. truthy (body r k)) essential_fields"
  shows "post_register e db fs r =
           (Respond 400 (Failure ''Missing essential registration fields.''), db,
            insert (''uploads/profile-pictures/'' @ generated_filename e f) fs)"
  using assms
  by (simp add: post_register_def multer_single_def register_fileFilter_def Let_def
      register_handler_def)

text \<open>
  C1. The written file is still in the storage after the error response in three runs: a
  registration with an image and without the essential fields (400), a picture upload for a
  token whose user document is absent (404), and a registration whose save fails with an
  error other than a validation error (500).
\<close>

theorem failed_operations_keep_uploaded_file:
  "post_register sample_env sample_db {} incomplete_registration =
     (Respond 400 (Failure ''Missing essential registration fields.''), sample_db,
      {''uploads/profile-pictures/profileImage-1700000000000-123456789.PNG''}) \<and>
   post_upload_picture sample_env [sample_user ''u2'' ''Male'' 300] {} picture_for_absent_user =
     (Respond 404 (Message ''User not found for picture update''), [sample_user ''u2'' ''Male'' 300],
      {''uploads/profile-pics/profileImage-1700000000000-123456789.PNG''}) \<and>
   post_register failing_store sample_db {} complete_registration =
     (Respond 500 (Failure ''Server error during registration.''), sample_db,
      {''uploads/profile-pictures/profileImage-1700000000000-123456789.PNG''})"
  using incomplete_registration_keeps_file picture_for_absent_user_keeps_file failed_save_keeps_file
  by simp

end
